theory Spec2Isabelle
  imports Main "HOL-Library.Sublist" "HOL-Library.Word"
begin

section \<open>The on-disk cache of the ECS Agent image: ecs-init/cache/cache.go\<close>

text \<open>
  A shallow embedding of package \<^verbatim>\<open>cache\<close>. Go strings and byte slices are byte
  sequences; both are values of type \<open>string\<close> (lists of 8-bit characters). The
  \<^verbatim>\<open>Downloader\<close> reaches the outside world only through three injected
  capabilities (\<^verbatim>\<open>getter\<close>, \<^verbatim>\<open>fs\<close>, \<^verbatim>\<open>metadata\<close>) and through package
  \<^verbatim>\<open>config\<close>. The behaviour of the capabilities is a parameter of every function
  (record \<open>env\<close>), the values of package \<^verbatim>\<open>config\<close> are another (record
  \<open>config\<close>), and what the code mutates is threaded through as record \<open>state\<close>:
  the field \<^verbatim>\<open>d.region\<close>, the regular files of the file system, and the list of
  capability calls made so far. Logging and the \<^verbatim>\<open>Close\<close> of a response body or of
  a file change nothing of this state and are left out.
\<close>

subsection \<open>Errors, responses, configuration\<close>

text \<open>
  A Go \<^verbatim>\<open>error\<close> is either built by this package with \<^verbatim>\<open>fmt.Errorf\<close> (the
  formatted message is kept), or \<^verbatim>\<open>io.EOF\<close> from \<^verbatim>\<open>bufio.Reader.ReadString\<close>, or
  an error value handed back by a capability.
\<close>

datatype error =
    Errorf string
  | EOF
  | ErrNotExist string
  | ErrExist string
  | Fault string

text \<open>The two fields of \<^verbatim>\<open>http.Response\<close> the package reads; \<open>Body\<close> holds the bytes
  the body stream delivers up to its end.\<close>

record Response =
  StatusCode :: int
  Body :: string

text \<open>
  Package \<^verbatim>\<open>config\<close> is not part of the sources at hand. Each of its functions
  that \<^verbatim>\<open>cache.go\<close> calls is a field here, under its Go name.
\<close>

record config =
  CacheDirectory :: string
  CacheState :: string
  AgentTarball :: string
  DesiredImageLocatorFile :: string
  DefaultRegionName :: string
  AgentRemoteTarball :: "string \<Rightarrow> string"
  AgentRemoteTarballMD5 :: "string \<Rightarrow> string"

unbundle bit_operations_syntax

text \<open>The constant \<^verbatim>\<open>orwPerm = 0700\<close> of the package, \<^verbatim>\<open>os.ModeDir\<close> (bit 31 of a file
  mode) and \<^verbatim>\<open>http.StatusOK\<close>.\<close>

definition orwPerm :: nat where
  "orwPerm = 448"

definition ModeDir :: nat where
  "ModeDir = 2147483648"

definition StatusOK :: int where
  "StatusOK = 200"

subsection \<open>Capabilities and state\<close>

text \<open>Every call the code makes on a capability, with the arguments that identify it.\<close>

datatype call =
    CallRegion
  | CallGet string
  | CallStat string
  | CallMkdirAll string nat
  | CallTempFile string string
  | CallCopy string
  | CallReadAll
  | CallRename string string
  | CallRemove string
  | CallWriteFile string string nat
  | CallOpen string

text \<open>
  How the capabilities answer. \<open>metadata_Region e n\<close> is the answer of
  \<^verbatim>\<open>d.metadata.Region()\<close> when \<open>n\<close> calls were made before; \<open>getter_Get e url\<close> is
  the answer of \<^verbatim>\<open>d.getter.Get(url)\<close>. The remaining fields say which file-system
  calls fail although the files would allow them (permissions, a full disk, a
  cross-device rename, a broken stream): a fault of \<open>copy_fault\<close> strikes after the
  given number of bytes, \<open>tempfile_result\<close> is the random suffix
  \<^verbatim>\<open>TempFile\<close> picks, or its error.
\<close>

record env =
  metadata_Region :: "nat \<Rightarrow> error + string"
  getter_Get :: "string \<Rightarrow> error + Response"
  stat_fault :: "string \<Rightarrow> error option"
  mkdir_fault :: "error option"
  tempfile_result :: "error + string"
  copy_fault :: "(nat \<times> error) option"
  readall_fault :: "error option"
  rename_fault :: "error option"
  remove_fault :: "error option"
  writefile_fault :: "error option"
  open_fault :: "string \<Rightarrow> error option"

text \<open>
  \<open>region\<close> is the field \<^verbatim>\<open>d.region\<close> of the \<^verbatim>\<open>Downloader\<close>; \<open>files\<close> maps the
  path of every regular file to its content; \<open>calls\<close> lists the capability calls made,
  oldest first. The \<^verbatim>\<open>Downloader\<close> is one whose \<^verbatim>\<open>metadata\<close> field is set
  (\<^verbatim>\<open>NewDownloader\<close> leaves it unset only together with a preset region).
\<close>

record state =
  region :: string
  files :: "string \<Rightarrow> string option"
  calls :: "call list"

definition logged :: "call \<Rightarrow> state \<Rightarrow> state" where
  "logged c s = s\<lparr>calls := calls s @ [c]\<rparr>"

text \<open>\<^verbatim>\<open>d.metadata.Region()\<close>: the answer depends on how often it was asked before.\<close>

definition metadata_call :: "env \<Rightarrow> state \<Rightarrow> (error + string) \<times> state" where
  "metadata_call e s = (metadata_Region e (count_list (calls s) CallRegion), logged CallRegion s)"

text \<open>\<^verbatim>\<open>d.getter.Get(url)\<close>.\<close>

definition http_Get :: "env \<Rightarrow> string \<Rightarrow> state \<Rightarrow> (error + Response) \<times> state" where
  "http_Get e url s = (getter_Get e url, logged (CallGet url) s)"

text \<open>
  Modelled from the spec: the \<^verbatim>\<open>fileSystem\<close> interface behind \<^verbatim>\<open>d.fs\<close> and its
  implementation are not in the sources at hand. The spec lists the capability as
  stat-by-path (size and existence), create-directory-recursive,
  create-temp-file-in-directory (a fresh file with a retrievable generated name),
  copy-with-tee, rename-path (atomic), remove-path, write-whole-file-with-permissions,
  open-for-read, read-entire-stream-to-bytes and extract-base-name-from-path. Each is
  modelled on a flat name space of regular files (directories are not tracked); a call
  that fails leaves the files as they were, apart from a copy, which leaves the bytes
  written before the failure.
\<close>

definition fs_Stat :: "env \<Rightarrow> string \<Rightarrow> state \<Rightarrow> (error + nat) \<times> state" where
  "fs_Stat e name s =
     ((case stat_fault e name of
         Some err \<Rightarrow> Inl err
       | None \<Rightarrow> (case files s name of
                    None \<Rightarrow> Inl (ErrNotExist name)
                  | Some content \<Rightarrow> Inr (length content))),
      logged (CallStat name) s)"

definition fs_MkdirAll :: "env \<Rightarrow> string \<Rightarrow> nat \<Rightarrow> state \<Rightarrow> error option \<times> state" where
  "fs_MkdirAll e dir perm s = (mkdir_fault e, logged (CallMkdirAll dir perm) s)"

definition fs_TempFile :: "env \<Rightarrow> string \<Rightarrow> string \<Rightarrow> state \<Rightarrow> (error + string) \<times> state" where
  "fs_TempFile e dir pfx s =
     (let s' = logged (CallTempFile dir pfx) s in
      case tempfile_result e of
        Inl err \<Rightarrow> (Inl err, s')
      | Inr sfx \<Rightarrow>
          (let name = dir @ ''/'' @ pfx @ sfx in
           if sfx = [] \<or> files s name \<noteq> None then (Inl (ErrExist name), s')
           else (Inr name, s'\<lparr>files := (files s')(name \<mapsto> [])\<rparr>)))"

text \<open>
  \<^verbatim>\<open>d.fs.Copy(tempFile, d.fs.TeeReader(body, md5hash))\<close>: every byte read from the
  body is fed to the hash and written to the file. The result carries the error, if
  any, and the bytes that went through the tee.
\<close>

definition fs_Copy :: "env \<Rightarrow> string \<Rightarrow> string \<Rightarrow> state \<Rightarrow> (error option \<times> string) \<times> state" where
  "fs_Copy e name body s =
     (let s' = logged (CallCopy name) s in
      case copy_fault e of
        Some (n, err) \<Rightarrow> ((Some err, take n body), s'\<lparr>files := (files s')(name \<mapsto> take n body)\<rparr>)
      | None \<Rightarrow> ((None, body), s'\<lparr>files := (files s')(name \<mapsto> body)\<rparr>))"

definition fs_ReadAll :: "env \<Rightarrow> string \<Rightarrow> state \<Rightarrow> (error + string) \<times> state" where
  "fs_ReadAll e body s =
     ((case readall_fault e of Some err \<Rightarrow> Inl err | None \<Rightarrow> Inr body), logged CallReadAll s)"

definition fs_Rename :: "env \<Rightarrow> string \<Rightarrow> string \<Rightarrow> state \<Rightarrow> error option \<times> state" where
  "fs_Rename e old new s =
     (let s' = logged (CallRename old new) s in
      case rename_fault e of
        Some err \<Rightarrow> (Some err, s')
      | None \<Rightarrow> (case files s old of
                   None \<Rightarrow> (Some (ErrNotExist old), s')
                 | Some content \<Rightarrow>
                     (None, s'\<lparr>files := ((files s')(old := None))(new \<mapsto> content)\<rparr>)))"

definition fs_Remove :: "env \<Rightarrow> string \<Rightarrow> state \<Rightarrow> error option \<times> state" where
  "fs_Remove e name s =
     (let s' = logged (CallRemove name) s in
      case remove_fault e of
        Some err \<Rightarrow> (Some err, s')
      | None \<Rightarrow> (case files s name of
                   None \<Rightarrow> (Some (ErrNotExist name), s')
                 | Some content \<Rightarrow> (None, s'\<lparr>files := (files s')(name := None)\<rparr>)))"

definition fs_WriteFile :: "env \<Rightarrow> string \<Rightarrow> string \<Rightarrow> nat \<Rightarrow> state \<Rightarrow> error option \<times> state" where
  "fs_WriteFile e name data perm s =
     (let s' = logged (CallWriteFile name data perm) s in
      case writefile_fault e of
        Some err \<Rightarrow> (Some err, s')
      | None \<Rightarrow> (None, s'\<lparr>files := (files s')(name \<mapsto> data)\<rparr>))"

text \<open>\<^verbatim>\<open>d.fs.Open(name)\<close>: the reader is the content of the file at the time it is opened.\<close>

definition fs_Open :: "env \<Rightarrow> string \<Rightarrow> state \<Rightarrow> (error + string) \<times> state" where
  "fs_Open e name s =
     ((case open_fault e name of
         Some err \<Rightarrow> Inl err
       | None \<Rightarrow> (case files s name of
                    None \<Rightarrow> Inl (ErrNotExist name)
                  | Some content \<Rightarrow> Inr content)),
      logged (CallOpen name) s)"

subsection \<open>IsAgentCached\<close>

definition fileNotEmpty :: "env \<Rightarrow> string \<Rightarrow> state \<Rightarrow> bool \<times> state" where
  "fileNotEmpty e filename s =
     (case fs_Stat e filename s of
        (Inl err, s') \<Rightarrow> (False, s')
      | (Inr sz, s') \<Rightarrow> (sz > 0, s'))"

text \<open>Go's \<^verbatim>\<open>&&\<close> does not evaluate its right operand when the left one is false.\<close>

definition IsAgentCached :: "config \<Rightarrow> env \<Rightarrow> state \<Rightarrow> bool \<times> state" where
  "IsAgentCached cfg e s =
     (case fileNotEmpty e (CacheState cfg) s of
        (False, s') \<Rightarrow> (False, s')
      | (True, s') \<Rightarrow> fileNotEmpty e (AgentTarball cfg) s')"

subsection \<open>getRegion\<close>

definition getRegion :: "config \<Rightarrow> env \<Rightarrow> state \<Rightarrow> string \<times> state" where
  "getRegion cfg e s =
     (if region s \<noteq> [] then (region s, s)
      else (case metadata_call e s of
              (Inl err, s') \<Rightarrow>
                (let s'' = s'\<lparr>region := DefaultRegionName cfg\<rparr> in (region s'', s''))
            | (Inr r, s') \<Rightarrow>
                (let s'' = s'\<lparr>region := r\<rparr> in (region s'', s''))))"

subsection \<open>Library functions on strings\<close>

text \<open>
  \<^verbatim>\<open>fmt.Sprintf("%x", b)\<close> for a byte slice: two lower-case hexadecimal digits per
  byte.
\<close>

definition hexdigit :: "nat \<Rightarrow> char" where
  "hexdigit n = ''0123456789abcdef'' ! (n mod 16)"

definition hex :: "string \<Rightarrow> string" where
  "hex bs = concat (map (\<lambda>b. [hexdigit (of_char b div 16), hexdigit (of_char b mod 16)]) bs)"

text \<open>\<^verbatim>\<open>%d\<close> of an \<^verbatim>\<open>int\<close>.\<close>

function show_nat :: "nat \<Rightarrow> string" where
  "show_nat n = (if n < 10 then [char_of (48 + n)]
                 else show_nat (n div 10) @ [char_of (48 + n mod 10)])"
  by pat_completeness auto
termination
  by (relation "measure id") auto

declare show_nat.simps [simp del]

definition show_int :: "int \<Rightarrow> string" where
  "show_int i = (if i < 0 then ''-'' @ show_nat (nat (- i)) else show_nat (nat i))"

text \<open>
  \<^verbatim>\<open>strings.TrimSpace\<close> removes the white-space runes (\<^verbatim>\<open>unicode.IsSpace\<close>) at the
  start and at the end of a string. A rune at the start, or at the end, of a byte string
  is a white-space rune exactly if the string starts, or ends, with the UTF-8 encoding
  of one; \<open>space_runes\<close> lists these encodings: U+0009 to U+000D, U+0020, U+0085,
  U+00A0, U+1680, U+2000 to U+200A, U+2028, U+2029, U+202F, U+205F and U+3000.
\<close>

definition space_runes :: "string list" where
  "space_runes =
     [[CHR 0x09], [CHR 0x0A], [CHR 0x0B], [CHR 0x0C], [CHR 0x0D], [CHR 0x20],
      [CHR 0xC2, CHR 0x85], [CHR 0xC2, CHR 0xA0],
      [CHR 0xE1, CHR 0x9A, CHR 0x80],
      [CHR 0xE2, CHR 0x80, CHR 0x80], [CHR 0xE2, CHR 0x80, CHR 0x81],
      [CHR 0xE2, CHR 0x80, CHR 0x82], [CHR 0xE2, CHR 0x80, CHR 0x83],
      [CHR 0xE2, CHR 0x80, CHR 0x84], [CHR 0xE2, CHR 0x80, CHR 0x85],
      [CHR 0xE2, CHR 0x80, CHR 0x86], [CHR 0xE2, CHR 0x80, CHR 0x87],
      [CHR 0xE2, CHR 0x80, CHR 0x88], [CHR 0xE2, CHR 0x80, CHR 0x89],
      [CHR 0xE2, CHR 0x80, CHR 0x8A],
      [CHR 0xE2, CHR 0x80, CHR 0xA8], [CHR 0xE2, CHR 0x80, CHR 0xA9],
      [CHR 0xE2, CHR 0x80, CHR 0xAF],
      [CHR 0xE2, CHR 0x81, CHR 0x9F],
      [CHR 0xE3, CHR 0x80, CHR 0x80]]"

text \<open>The length of the first of the sequences \<open>ws\<close> that \<open>s\<close> starts with; 0 if
  there is none.\<close>

fun leading :: "string list \<Rightarrow> string \<Rightarrow> nat" where
  "leading [] s = 0"
| "leading (w # ws) s = (if w \<noteq> [] \<and> prefix w s then length w else leading ws s)"

lemma leading_le: "leading ws s \<le> length s"
  by (induction ws) (auto simp: prefix_length_le)

function strip_leading :: "string list \<Rightarrow> string \<Rightarrow> string" where
  "strip_leading ws s =
     (if leading ws s = 0 then s else strip_leading ws (drop (leading ws s) s))"
  by pat_completeness auto
termination
proof (relation "measure (\<lambda>(ws, s). length s)")
  show "wf (measure (\<lambda>(ws, s). length s))" by simp
next
  fix ws :: "string list" and s :: string
  assume "leading ws s \<noteq> 0"
  moreover have "leading ws s \<le> length s" by (rule leading_le)
  ultimately show "((ws, drop (leading ws s) s), (ws, s)) \<in> measure (\<lambda>(ws, s). length s)"
    by simp
qed

declare strip_leading.simps [simp del]

definition TrimLeftSpace :: "string \<Rightarrow> string" where
  "TrimLeftSpace s = strip_leading space_runes s"

definition TrimRightSpace :: "string \<Rightarrow> string" where
  "TrimRightSpace s = rev (strip_leading (map rev space_runes) (rev s))"

definition TrimSpace :: "string \<Rightarrow> string" where
  "TrimSpace s = TrimRightSpace (TrimLeftSpace s)"

text \<open>
  \<^verbatim>\<open>bufio.NewReader(file).ReadString('\n')\<close> on a reader that delivers \<open>content\<close>: the
  bytes up to and including the first newline, or \<^verbatim>\<open>io.EOF\<close> when there is none.
\<close>

definition ReadString :: "string \<Rightarrow> error + string" where
  "ReadString content =
     (if CHR 0x0A \<in> set content
      then Inr (takeWhile (\<lambda>c. c \<noteq> CHR 0x0A) content @ [CHR 0x0A])
      else Inl EOF)"

text \<open>
  Modelled from the spec: \<^verbatim>\<open>d.fs.Base\<close>, the capability's
  extract-base-name-from-path, is not in the sources at hand. It is Go's
  \<^verbatim>\<open>filepath.Base\<close> on a Unix path: the empty path gives a dot, trailing slashes are
  dropped, the last element is kept, and a path of slashes only gives one slash.
\<close>

definition fs_Base :: "string \<Rightarrow> string" where
  "fs_Base path =
     (if path = [] then ''.''
      else (let p = rev (dropWhile (\<lambda>c. c = CHR ''/'') (rev path));
                q = rev (takeWhile (\<lambda>c. c \<noteq> CHR ''/'') (rev p))
            in if q = [] then ''/'' else q))"

subsection \<open>The digest\<close>

text \<open>
  \<^verbatim>\<open>crypto/md5\<close>: the MD5 digest of RFC 1321 on 32-bit words. The four tables list,
  for the sixteen steps of each round, the index of the message word, the rotation and
  the additive constant.
\<close>

definition md5_round1 :: "(nat \<times> nat \<times> 32 word) list" where
  "md5_round1 =
     [(0, 7, 0xd76aa478), (1, 12, 0xe8c7b756), (2, 17, 0x242070db), (3, 22, 0xc1bdceee),
      (4, 7, 0xf57c0faf), (5, 12, 0x4787c62a), (6, 17, 0xa8304613), (7, 22, 0xfd469501),
      (8, 7, 0x698098d8), (9, 12, 0x8b44f7af), (10, 17, 0xffff5bb1), (11, 22, 0x895cd7be),
      (12, 7, 0x6b901122), (13, 12, 0xfd987193), (14, 17, 0xa679438e), (15, 22, 0x49b40821)]"

definition md5_round2 :: "(nat \<times> nat \<times> 32 word) list" where
  "md5_round2 =
     [(1, 5, 0xf61e2562), (6, 9, 0xc040b340), (11, 14, 0x265e5a51), (0, 20, 0xe9b6c7aa),
      (5, 5, 0xd62f105d), (10, 9, 0x02441453), (15, 14, 0xd8a1e681), (4, 20, 0xe7d3fbc8),
      (9, 5, 0x21e1cde6), (14, 9, 0xc33707d6), (3, 14, 0xf4d50d87), (8, 20, 0x455a14ed),
      (13, 5, 0xa9e3e905), (2, 9, 0xfcefa3f8), (7, 14, 0x676f02d9), (12, 20, 0x8d2a4c8a)]"

definition md5_round3 :: "(nat \<times> nat \<times> 32 word) list" where
  "md5_round3 =
     [(5, 4, 0xfffa3942), (8, 11, 0x8771f681), (11, 16, 0x6d9d6122), (14, 23, 0xfde5380c),
      (1, 4, 0xa4beea44), (4, 11, 0x4bdecfa9), (7, 16, 0xf6bb4b60), (10, 23, 0xbebfbc70),
      (13, 4, 0x289b7ec6), (0, 11, 0xeaa127fa), (3, 16, 0xd4ef3085), (6, 23, 0x04881d05),
      (9, 4, 0xd9d4d039), (12, 11, 0xe6db99e5), (15, 16, 0x1fa27cf8), (2, 23, 0xc4ac5665)]"

definition md5_round4 :: "(nat \<times> nat \<times> 32 word) list" where
  "md5_round4 =
     [(0, 6, 0xf4292244), (7, 10, 0x432aff97), (14, 15, 0xab9423a7), (5, 21, 0xfc93a039),
      (12, 6, 0x655b59c3), (3, 10, 0x8f0ccc92), (10, 15, 0xffeff47d), (1, 21, 0x85845dd1),
      (8, 6, 0x6fa87e4f), (15, 10, 0xfe2ce6e0), (6, 15, 0xa3014314), (13, 21, 0x4e0811a1),
      (4, 6, 0xf7537e82), (11, 10, 0xbd3af235), (2, 15, 0x2ad7d2bb), (9, 21, 0xeb86d391)]"

definition rotl :: "nat \<Rightarrow> 32 word \<Rightarrow> 32 word" where
  "rotl n w = push_bit n w OR drop_bit (32 - n) w"

definition md5_F :: "32 word \<Rightarrow> 32 word \<Rightarrow> 32 word \<Rightarrow> 32 word" where
  "md5_F b c d = (b AND c) OR (NOT b AND d)"

definition md5_G :: "32 word \<Rightarrow> 32 word \<Rightarrow> 32 word \<Rightarrow> 32 word" where
  "md5_G b c d = (d AND b) OR (NOT d AND c)"

definition md5_H :: "32 word \<Rightarrow> 32 word \<Rightarrow> 32 word \<Rightarrow> 32 word" where
  "md5_H b c d = b XOR c XOR d"

definition md5_I :: "32 word \<Rightarrow> 32 word \<Rightarrow> 32 word \<Rightarrow> 32 word" where
  "md5_I b c d = c XOR (b OR NOT d)"

definition md5_step ::
  "(32 word \<Rightarrow> 32 word \<Rightarrow> 32 word \<Rightarrow> 32 word) \<Rightarrow> 32 word list \<Rightarrow>
   32 word \<times> 32 word \<times> 32 word \<times> 32 word \<Rightarrow> nat \<times> nat \<times> 32 word \<Rightarrow>
   32 word \<times> 32 word \<times> 32 word \<times> 32 word" where
  "md5_step f m v t =
     (case v of (a, b, c, d) \<Rightarrow>
      case t of (g, s, k) \<Rightarrow> (d, b + rotl s (f b c d + a + k + m ! g), b, c))"

definition md5_block ::
  "32 word \<times> 32 word \<times> 32 word \<times> 32 word \<Rightarrow> 32 word list \<Rightarrow>
   32 word \<times> 32 word \<times> 32 word \<times> 32 word" where
  "md5_block h m =
     (case h of (a0, b0, c0, d0) \<Rightarrow>
      case foldl (md5_step md5_I m)
             (foldl (md5_step md5_H m)
                (foldl (md5_step md5_G m)
                   (foldl (md5_step md5_F m) h md5_round1) md5_round2) md5_round3) md5_round4 of
        (a, b, c, d) \<Rightarrow> (a0 + a, b0 + b, c0 + c, d0 + d))"

function md5_blocks ::
  "32 word \<times> 32 word \<times> 32 word \<times> 32 word \<Rightarrow> 32 word list \<Rightarrow>
   32 word \<times> 32 word \<times> 32 word \<times> 32 word" where
  "md5_blocks h ws =
     (if length ws < 16 then h else md5_blocks (md5_block h (take 16 ws)) (drop 16 ws))"
  by pat_completeness auto
termination
  by (relation "measure (\<lambda>(h, ws). length ws)") auto

declare md5_blocks.simps [simp del]

text \<open>Little-endian: the words of a byte string, and the low \<open>k\<close> bytes of a number.\<close>

fun le32s :: "string \<Rightarrow> 32 word list" where
  "le32s (b0 # b1 # b2 # b3 # bs) =
     (of_nat (of_char b0) + push_bit 8 (of_nat (of_char b1)) +
      push_bit 16 (of_nat (of_char b2)) + push_bit 24 (of_nat (of_char b3))) # le32s bs"
| "le32s bs = []"

fun le_bytes :: "nat \<Rightarrow> nat \<Rightarrow> string" where
  "le_bytes 0 n = []"
| "le_bytes (Suc k) n = char_of n # le_bytes k (n div 256)"

definition md5_pad :: "string \<Rightarrow> string" where
  "md5_pad bs =
     bs @ CHR 0x80 # replicate ((119 - length bs mod 64) mod 64) (CHR 0x00) @
     le_bytes 8 (8 * length bs)"

definition md5 :: "string \<Rightarrow> string" where
  "md5 bs =
     (case md5_blocks (0x67452301, 0xefcdab89, 0x98badcfe, 0x10325476) (le32s (md5_pad bs)) of
        (a, b, c, d) \<Rightarrow> concat (map (\<lambda>w. le_bytes 4 (unat w)) [a, b, c, d]))"

subsection \<open>DownloadAgent\<close>

definition getPublishedMd5Sum :: "config \<Rightarrow> env \<Rightarrow> state \<Rightarrow> (error + string) \<times> state" where
  "getPublishedMd5Sum cfg e s =
     (case getRegion cfg e s of
        (r, s1) \<Rightarrow>
          (let agentRemoteTarballMD5 = AgentRemoteTarballMD5 cfg r in
           case http_Get e agentRemoteTarballMD5 s1 of
             (Inl err, s2) \<Rightarrow> (Inl err, s2)
           | (Inr resp, s2) \<Rightarrow>
               (case fs_ReadAll e (Body resp) s2 of
                  (Inl err, s3) \<Rightarrow> (Inl err, s3)
                | (Inr body, s3) \<Rightarrow> (Inr (TrimSpace body), s3))))"

definition getPublishedTarball :: "config \<Rightarrow> env \<Rightarrow> state \<Rightarrow> (error + string) \<times> state" where
  "getPublishedTarball cfg e s =
     (case getRegion cfg e s of
        (r, s1) \<Rightarrow>
          (let agentRemoteTarball = AgentRemoteTarball cfg r in
           case http_Get e agentRemoteTarball s1 of
             (Inl err, s2) \<Rightarrow> (Inl err, s2)
           | (Inr resp, s2) \<Rightarrow>
               if StatusCode resp \<noteq> StatusOK
               then (Inl (Errorf (''unexpected response code '' @ show_int (StatusCode resp))), s2)
               else (Inr (Body resp), s2)))"

text \<open>
  The deferred function of \<^verbatim>\<open>DownloadAgent\<close>: it removes the temporary file when the
  local variable \<^verbatim>\<open>err\<close> is set at the time the function returns, and drops the
  result of \<^verbatim>\<open>Remove\<close>.
\<close>

definition removeTempFile :: "env \<Rightarrow> string \<Rightarrow> error option \<Rightarrow> state \<Rightarrow> state" where
  "removeTempFile e tempFile err s =
     (case err of None \<Rightarrow> s | Some x \<Rightarrow> snd (fs_Remove e tempFile s))"

text \<open>
  The result of \<^verbatim>\<open>DownloadAgent\<close> is \<open>None\<close> for \<^verbatim>\<open>nil\<close>. \<open>hashed\<close> are the bytes
  written to \<^verbatim>\<open>md5hash\<close>. The last \<^verbatim>\<open>return\<close> hands back the result of
  \<^verbatim>\<open>Rename\<close> without assigning it to \<^verbatim>\<open>err\<close>, so the deferred function sees
  the \<^verbatim>\<open>nil\<close> left by \<^verbatim>\<open>Copy\<close> there.
\<close>

definition DownloadAgent :: "config \<Rightarrow> env \<Rightarrow> state \<Rightarrow> error option \<times> state" where
  "DownloadAgent cfg e s =
     (case fs_MkdirAll e (CacheDirectory cfg) (ModeDir OR orwPerm) s of
        (Some err, s1) \<Rightarrow> (Some err, s1)
      | (None, s1) \<Rightarrow>
     (case getPublishedMd5Sum cfg e s1 of
        (Inl err, s2) \<Rightarrow> (Some err, s2)
      | (Inr publishedMd5Sum, s2) \<Rightarrow>
     (case getPublishedTarball cfg e s2 of
        (Inl err, s3) \<Rightarrow> (Some err, s3)
      | (Inr publishedTarballReader, s3) \<Rightarrow>
     (case fs_TempFile e (CacheDirectory cfg) ''ecs-agent.tar'' s3 of
        (Inl err, s4) \<Rightarrow> (Some err, s4)
      | (Inr tempFile, s4) \<Rightarrow>
     (case fs_Copy e tempFile publishedTarballReader s4 of
        ((Some err, hashed), s5) \<Rightarrow> (Some err, removeTempFile e tempFile (Some err) s5)
      | ((None, hashed), s5) \<Rightarrow>
          (let calculatedMd5SumString = hex (md5 hashed) in
           case getRegion cfg e s5 of
             (r, s6) \<Rightarrow>
               (let agentRemoteTarball = AgentRemoteTarball cfg r in
                if publishedMd5Sum \<noteq> calculatedMd5SumString
                then (let err = Some (Errorf (''mismatched md5sum while downloading '' @ agentRemoteTarball))
                      in (err, removeTempFile e tempFile err s6))
                else (case fs_Rename e tempFile (AgentTarball cfg) s6 of
                        (res, s7) \<Rightarrow> (res, removeTempFile e tempFile None s7)))))))))"

subsection \<open>LoadCachedAgent, RecordCachedAgent, LoadDesiredAgent\<close>

definition LoadCachedAgent :: "config \<Rightarrow> env \<Rightarrow> state \<Rightarrow> (error + string) \<times> state" where
  "LoadCachedAgent cfg e s = fs_Open e (AgentTarball cfg) s"

definition RecordCachedAgent :: "config \<Rightarrow> env \<Rightarrow> state \<Rightarrow> error option \<times> state" where
  "RecordCachedAgent cfg e s = fs_WriteFile e (CacheState cfg) ''1'' orwPerm s"

definition getDesiredImageFile :: "config \<Rightarrow> env \<Rightarrow> state \<Rightarrow> (error + string) \<times> state" where
  "getDesiredImageFile cfg e s =
     (case fs_Open e (DesiredImageLocatorFile cfg) s of
        (Inl err, s1) \<Rightarrow> (Inl err, s1)
      | (Inr file, s1) \<Rightarrow>
          (case ReadString file of
             Inl err \<Rightarrow> (Inl err, s1)
           | Inr desiredImageString \<Rightarrow>
               (Inr (TrimSpace (CacheDirectory cfg @ ''/'' @ fs_Base desiredImageString)), s1)))"

definition LoadDesiredAgent :: "config \<Rightarrow> env \<Rightarrow> state \<Rightarrow> (error + string) \<times> state" where
  "LoadDesiredAgent cfg e s =
     (case getDesiredImageFile cfg e s of
        (Inl err, s1) \<Rightarrow> (Inl err, s1)
      | (Inr desiredImageFile, s1) \<Rightarrow> fs_Open e desiredImageFile s1)"

subsection \<open>Vocabulary of the theorems\<close>

text \<open>
  The URL \<^verbatim>\<open>getPublishedMd5Sum\<close> requests when \<^verbatim>\<open>DownloadAgent\<close> starts in state
  \<open>s\<close>, the URL \<^verbatim>\<open>getPublishedTarball\<close> requests after it, and the name of the
  temporary file for a given random suffix. Both URLs are built from the result of
  \<^verbatim>\<open>getRegion\<close>, called once for each.
\<close>

definition manifestURL :: "config \<Rightarrow> env \<Rightarrow> state \<Rightarrow> string" where
  "manifestURL cfg e s = AgentRemoteTarballMD5 cfg (fst (getRegion cfg e s))"

definition artifactURL :: "config \<Rightarrow> env \<Rightarrow> state \<Rightarrow> string" where
  "artifactURL cfg e s =
     AgentRemoteTarball cfg (fst (getRegion cfg e (snd (getRegion cfg e s))))"

definition tempName :: "config \<Rightarrow> string \<Rightarrow> string" where
  "tempName cfg sfx = CacheDirectory cfg @ ''/'' @ ''ecs-agent.tar'' @ sfx"

text \<open>
  \<open>delivers cfg e s checksum stream tempFile\<close>: started in state \<open>s\<close>, the download
  gets as far as the comparison of the digests. The cache directory can be made, the
  manifest request is answered and its body, read in full and trimmed, is \<open>checksum\<close>;
  the artifact request is answered with status 200 and its body delivers the bytes
  \<open>stream\<close>; a fresh temporary file \<open>tempFile\<close> can be made and the copy into it does
  not fail.
\<close>

definition delivers :: "config \<Rightarrow> env \<Rightarrow> state \<Rightarrow> string \<Rightarrow> string \<Rightarrow> string \<Rightarrow> bool" where
  "delivers cfg e s checksum stream tempFile \<longleftrightarrow>
     mkdir_fault e = None \<and>
     (case getter_Get e (manifestURL cfg e s) of
        Inl err \<Rightarrow> False
      | Inr resp \<Rightarrow> TrimSpace (Body resp) = checksum) \<and>
     readall_fault e = None \<and>
     (case getter_Get e (artifactURL cfg e s) of
        Inl err \<Rightarrow> False
      | Inr resp \<Rightarrow> StatusCode resp = StatusOK \<and> Body resp = stream) \<and>
     (case tempfile_result e of
        Inl err \<Rightarrow> False
      | Inr sfx \<Rightarrow> sfx \<noteq> [] \<and> tempFile = tempName cfg sfx) \<and>
     files s tempFile = None \<and>
     copy_fault e = None"

text \<open>The calls of \<^verbatim>\<open>Remove\<close> among the calls made so far.\<close>

fun is_Remove :: "call \<Rightarrow> bool" where
  "is_Remove (CallRemove name) = True"
| "is_Remove c = False"

definition removals :: "state \<Rightarrow> call list" where
  "removals s = filter is_Remove (calls s)"

text \<open>What the steps of a download depend on and what the theorems observe: the
  region field, the files, the number of calls made on the metadata service, and the
  removals.\<close>

definition core :: "state \<Rightarrow> string \<times> (string \<Rightarrow> string option) \<times> nat \<times> call list" where
  "core s = (region s, files s, count_list (calls s) CallRegion, removals s)"

subsection \<open>Concrete scenarios\<close>

text \<open>A configuration with the paths \<^verbatim>\<open>cache.go\<close> documents
  (\<^verbatim>\<open>/var/cache/ecs/desired-image\<close>), and a downloader on an empty disk whose region is
  not yet resolved.\<close>

definition cfg0 :: config where
  "cfg0 = \<lparr> CacheDirectory = ''/var/cache/ecs'',
           CacheState = ''/var/cache/ecs/state'',
           AgentTarball = ''/var/cache/ecs/ecs-agent.tar'',
           DesiredImageLocatorFile = ''/var/cache/ecs/desired-image'',
           DefaultRegionName = ''us-east-1'',
           AgentRemoteTarball = (\<lambda>r. ''https://s3.'' @ r @ ''.example/ecs-agent.tar''),
           AgentRemoteTarballMD5 = (\<lambda>r. ''https://s3.'' @ r @ ''.example/ecs-agent.tar.md5'') \<rparr>"

definition s0 :: state where
  "s0 = \<lparr> region = [], files = Map.empty, calls = [] \<rparr>"

text \<open>A world in which no capability call fails: the metadata service answers
  \<^verbatim>\<open>us-west-2\<close>, every URL is answered with status 200 and an empty body.\<close>

definition env0 :: env where
  "env0 = \<lparr> metadata_Region = (\<lambda>n. Inr ''us-west-2''),
           getter_Get = (\<lambda>url. Inr \<lparr> StatusCode = 200, Body = [] \<rparr>),
           stat_fault = (\<lambda>name. None),
           mkdir_fault = None,
           tempfile_result = Inr ''123456789'',
           copy_fault = None,
           readall_fault = None,
           rename_fault = None,
           remove_fault = None,
           writefile_fault = None,
           open_fault = (\<lambda>name. None) \<rparr>"

text \<open>The metadata service answers with an empty region first and with
  \<^verbatim>\<open>us-west-2\<close> from then on.\<close>

definition env_empty_region :: env where
  "env_empty_region = env0\<lparr> metadata_Region := (\<lambda>n. if n = 0 then Inr [] else Inr ''us-west-2'') \<rparr>"

text \<open>The metadata service fails first and answers \<^verbatim>\<open>us-west-2\<close> from then on.\<close>

definition env_region_fallback :: env where
  "env_region_fallback =
     env0\<lparr> metadata_Region := (\<lambda>n. if n = 0 then Inl (Fault ''EC2MetadataError'') else Inr ''us-west-2'') \<rparr>"

text \<open>A disk that holds nothing but the desired-image locator file, with the given
  content.\<close>

definition locator :: "string \<Rightarrow> state" where
  "locator content = s0\<lparr> files := [DesiredImageLocatorFile cfg0 \<mapsto> content] \<rparr>"

text \<open>The manifest request is answered with status 404 and an error document, without a
  transport error; the artifact request is answered with status 200.\<close>

definition env_manifest_404 :: env where
  "env_manifest_404 =
     env0\<lparr> getter_Get := (\<lambda>url.
       if url = ''https://s3.us-west-2.example/ecs-agent.tar.md5''
       then Inr \<lparr> StatusCode = 404, Body = ''<Error><Code>NoSuchKey</Code></Error>'' \<rparr>
       else Inr \<lparr> StatusCode = 200, Body = ''hello-agent'' \<rparr>) \<rparr>"

text \<open>The artifact is the eleven bytes \<^verbatim>\<open>hello-agent\<close>; the manifest holds their MD5
  digest in hexadecimal, followed by a newline. Every other URL is unreachable.\<close>

definition env_hello :: env where
  "env_hello =
     env0\<lparr> getter_Get := (\<lambda>url.
       if url = ''https://s3.us-west-2.example/ecs-agent.tar.md5''
       then Inr \<lparr> StatusCode = 200, Body = ''55184970d69063e3bedc39abaf4a2f75'' @ [CHR 0x0A] \<rparr>
       else if url = ''https://s3.us-west-2.example/ecs-agent.tar''
       then Inr \<lparr> StatusCode = 200, Body = ''hello-agent'' \<rparr>
       else Inl (Fault ''no such host'')) \<rparr>"

text \<open>The same artifact, but the manifest holds the digest of another file (of the empty
  one).\<close>

definition env_other_digest :: env where
  "env_other_digest =
     env0\<lparr> getter_Get := (\<lambda>url.
       if url = ''https://s3.us-west-2.example/ecs-agent.tar.md5''
       then Inr \<lparr> StatusCode = 200, Body = ''d41d8cd98f00b204e9800998ecf8427e'' @ [CHR 0x0A] \<rparr>
       else if url = ''https://s3.us-west-2.example/ecs-agent.tar''
       then Inr \<lparr> StatusCode = 200, Body = ''hello-agent'' \<rparr>
       else Inl (Fault ''no such host'')) \<rparr>"

text \<open>As \<open>env_hello\<close>, but the rename fails.\<close>

definition env_rename_fails :: env where
  "env_rename_fails = env_hello\<lparr> rename_fault := Some (Fault ''invalid cross-device link'') \<rparr>"

text \<open>A disk that holds an artifact verified earlier, and no state marker.\<close>

definition s_old :: state where
  "s_old = s0\<lparr> files := [AgentTarball cfg0 \<mapsto> ''old-agent''] \<rparr>"

text \<open>The manifest request is answered with status 404, but the body of the answer is the
  digest line of \<open>env_hello\<close>.\<close>

definition env_manifest_404_digest :: env where
  "env_manifest_404_digest =
     env0\<lparr> getter_Get := (\<lambda>url.
       if url = ''https://s3.us-west-2.example/ecs-agent.tar.md5''
       then Inr \<lparr> StatusCode = 404, Body = ''55184970d69063e3bedc39abaf4a2f75'' @ [CHR 0x0A] \<rparr>
       else Inr \<lparr> StatusCode = 200, Body = ''hello-agent'' \<rparr>) \<rparr>"

section \<open>Lemmas\<close>

subsection \<open>The state\<close>
lemma files_logged [simp]: "files (logged c s) = files s"
  and region_logged [simp]: "region (logged c s) = region s"
  and calls_logged [simp]: "calls (logged c s) = calls s @ [c]"
  by (simp_all add: logged_def)

lemma removals_logged [simp]:
  "removals (logged c s) = (if is_Remove c then removals s @ [c] else removals s)"
  by (simp add: removals_def)

lemma removals_files_update [simp]: "removals (s\<lparr>files := f\<rparr>) = removals s"
  by (simp add: removals_def)

lemma core_logged: "c \<noteq> CallRegion \<Longrightarrow> \<not> is_Remove c \<Longrightarrow> core (logged c s) = core s"
  by (simp add: core_def removals_def)

lemma core_files: "core s = core t \<Longrightarrow> files s = files t"
  and core_region: "core s = core t \<Longrightarrow> region s = region t"
  and core_removals: "core s = core t \<Longrightarrow> removals s = removals t"
  by (simp_all add: core_def)

lemma getRegion_core_fst:
  "core s = core t \<Longrightarrow> fst (getRegion cfg e s) = fst (getRegion cfg e t)"
  by (auto simp: core_def getRegion_def metadata_call_def Let_def split: sum.splits)

lemma getRegion_core_snd:
  "core s = core t \<Longrightarrow> core (snd (getRegion cfg e s)) = core (snd (getRegion cfg e t))"
  by (auto simp: core_def removals_def getRegion_def metadata_call_def Let_def split: sum.splits)

lemma getRegion_removals [simp]: "removals (snd (getRegion cfg e s)) = removals s"
  by (auto simp: removals_def getRegion_def metadata_call_def Let_def split: sum.splits)

lemma getRegion_set: "region s \<noteq> [] \<Longrightarrow> getRegion cfg e s = (region s, s)"
  by (simp add: getRegion_def)

lemma getRegion_files [simp]: "files (snd (getRegion cfg e s)) = files s"
  by (auto simp: getRegion_def metadata_call_def Let_def split: sum.splits)

lemma getRegion_region: "region (snd (getRegion cfg e s)) = fst (getRegion cfg e s)"
  by (auto simp: getRegion_def metadata_call_def Let_def split: sum.splits)

lemma getRegion_again:
  "fst (getRegion cfg e s) \<noteq> [] \<Longrightarrow>
   fst (getRegion cfg e (snd (getRegion cfg e s))) = fst (getRegion cfg e s)"
  using getRegion_region [of cfg e s] by (simp add: getRegion_set)

subsection \<open>IsAgentCached\<close>

lemma fileNotEmpty_fst:
  "fst (fileNotEmpty e name s) \<longleftrightarrow>
     stat_fault e name = None \<and> (\<exists>c. files s name = Some c \<and> c \<noteq> [])"
  by (auto simp: fileNotEmpty_def fs_Stat_def split: option.splits)

lemma fileNotEmpty_snd: "snd (fileNotEmpty e name s) = logged (CallStat name) s"
  by (auto simp: fileNotEmpty_def fs_Stat_def split: option.splits)

subsection \<open>The download up to the comparison of the digests\<close>

lemma getPublishedMd5Sum_delivered:
  assumes "core s1 = core s"
    and "getter_Get e (manifestURL cfg e s) = Inr resp"
    and "readall_fault e = None"
  shows "fst (getPublishedMd5Sum cfg e s1) = Inr (TrimSpace (Body resp))"
    and "core (snd (getPublishedMd5Sum cfg e s1)) = core (snd (getRegion cfg e s))"
proof -
  obtain r s1a where g: "getRegion cfg e s1 = (r, s1a)" by (cases "getRegion cfg e s1")
  have r: "r = fst (getRegion cfg e s)"
    using getRegion_core_fst [OF assms(1), of cfg e] g by simp
  have c: "core s1a = core (snd (getRegion cfg e s))"
    using getRegion_core_snd [OF assms(1), of cfg e] g by simp
  have u: "getter_Get e (AgentRemoteTarballMD5 cfg r) = Inr resp"
    using assms(2) r by (simp add: manifestURL_def)
  show "fst (getPublishedMd5Sum cfg e s1) = Inr (TrimSpace (Body resp))"
    using g u assms(3) by (simp add: getPublishedMd5Sum_def http_Get_def fs_ReadAll_def)
  have "snd (getPublishedMd5Sum cfg e s1) =
      logged CallReadAll (logged (CallGet (AgentRemoteTarballMD5 cfg r)) s1a)"
    using g u assms(3) by (simp add: getPublishedMd5Sum_def http_Get_def fs_ReadAll_def)
  then show "core (snd (getPublishedMd5Sum cfg e s1)) = core (snd (getRegion cfg e s))"
    using c by (simp add: core_logged)
qed

lemma getPublishedTarball_delivered:
  assumes "core s2 = core (snd (getRegion cfg e s))"
    and "getter_Get e (artifactURL cfg e s) = Inr resp"
    and "StatusCode resp = StatusOK"
  shows "fst (getPublishedTarball cfg e s2) = Inr (Body resp)"
    and "files (snd (getPublishedTarball cfg e s2)) = files s"
    and "region (snd (getPublishedTarball cfg e s2)) =
           fst (getRegion cfg e (snd (getRegion cfg e s)))"
    and "removals (snd (getPublishedTarball cfg e s2)) = removals s"
proof -
  obtain r s2a where g: "getRegion cfg e s2 = (r, s2a)" by (cases "getRegion cfg e s2")
  have r: "r = fst (getRegion cfg e (snd (getRegion cfg e s)))"
    using getRegion_core_fst [OF assms(1), of cfg e] g by simp
  have u: "getter_Get e (AgentRemoteTarball cfg r) = Inr resp"
    using assms(2) r by (simp add: artifactURL_def)
  show "fst (getPublishedTarball cfg e s2) = Inr (Body resp)"
    using g u assms(3) by (simp add: getPublishedTarball_def http_Get_def)
  have s3: "snd (getPublishedTarball cfg e s2) = logged (CallGet (AgentRemoteTarball cfg r)) s2a"
    using g u assms(3) by (simp add: getPublishedTarball_def http_Get_def)
  have "files s2a = files s2" using g getRegion_files [of cfg e s2] by simp
  with s3 show "files (snd (getPublishedTarball cfg e s2)) = files s"
    using core_files [OF assms(1)] by simp
  have "region s2a = r" using g getRegion_region [of cfg e s2] by simp
  with s3 r show "region (snd (getPublishedTarball cfg e s2)) =
      fst (getRegion cfg e (snd (getRegion cfg e s)))" by simp
  have "removals s2a = removals s2" using g getRegion_removals [of cfg e s2] by simp
  with s3 show "removals (snd (getPublishedTarball cfg e s2)) = removals s"
    using core_removals [OF assms(1)] by simp
qed

text \<open>From the start to the comparison: what is left of \<^verbatim>\<open>DownloadAgent\<close> is the
  third call of \<^verbatim>\<open>getRegion\<close>, the comparison and the rename.\<close>

lemma DownloadAgent_delivered:
  assumes "delivers cfg e s checksum stream tempFile"
  shows "\<exists>s5. files s5 = (files s)(tempFile \<mapsto> stream) \<and>
           region s5 = fst (getRegion cfg e (snd (getRegion cfg e s))) \<and>
           removals s5 = removals s \<and>
           DownloadAgent cfg e s =
             (case getRegion cfg e s5 of
                (r, s6) \<Rightarrow>
                  if checksum \<noteq> hex (md5 stream)
                  then (Some (Errorf (''mismatched md5sum while downloading '' @ AgentRemoteTarball cfg r)),
                        removeTempFile e tempFile
                          (Some (Errorf (''mismatched md5sum while downloading '' @ AgentRemoteTarball cfg r))) s6)
                  else (case fs_Rename e tempFile (AgentTarball cfg) s6 of
                          (res, s7) \<Rightarrow> (res, removeTempFile e tempFile None s7)))"
proof -
  from assms obtain manifest artifact sfx where
    mk: "mkdir_fault e = None" and
    m: "getter_Get e (manifestURL cfg e s) = Inr manifest" "TrimSpace (Body manifest) = checksum" and
    ra: "readall_fault e = None" and
    a: "getter_Get e (artifactURL cfg e s) = Inr artifact" "StatusCode artifact = StatusOK"
       "Body artifact = stream" and
    t: "tempfile_result e = Inr sfx" "sfx \<noteq> []" "tempFile = tempName cfg sfx" and
    fresh: "files s tempFile = None" and
    cp: "copy_fault e = None"
    by (auto simp: delivers_def split: sum.splits)
  define s1 where "s1 = logged (CallMkdirAll (CacheDirectory cfg) (ModeDir OR orwPerm)) s"
  have c1: "core s1 = core s" by (simp add: s1_def core_logged)
  obtain x2 s2 where p2: "getPublishedMd5Sum cfg e s1 = (x2, s2)"
    by (cases "getPublishedMd5Sum cfg e s1")
  have x2: "x2 = Inr checksum" and c2: "core s2 = core (snd (getRegion cfg e s))"
    using getPublishedMd5Sum_delivered [OF c1 m(1) ra] p2 m(2) by simp_all
  obtain x3 s3 where p3: "getPublishedTarball cfg e s2 = (x3, s3)"
    by (cases "getPublishedTarball cfg e s2")
  have x3: "x3 = Inr stream" and f3: "files s3 = files s"
    and r3: "region s3 = fst (getRegion cfg e (snd (getRegion cfg e s)))"
    and d3: "removals s3 = removals s"
    using getPublishedTarball_delivered [OF c2 a(1) a(2)] p3 a(3) by simp_all
  define s4 where "s4 = (logged (CallTempFile (CacheDirectory cfg) ''ecs-agent.tar'') s3)
      \<lparr>files := (files s)(tempFile \<mapsto> [])\<rparr>"
  have p4: "fs_TempFile e (CacheDirectory cfg) ''ecs-agent.tar'' s3 = (Inr tempFile, s4)"
    using t fresh f3 by (simp add: fs_TempFile_def tempName_def s4_def Let_def)
  define s5 where "s5 = (logged (CallCopy tempFile) s4)\<lparr>files := (files s)(tempFile \<mapsto> stream)\<rparr>"
  have p5: "fs_Copy e tempFile stream s4 = ((None, stream), s5)"
    using cp by (simp add: fs_Copy_def s5_def s4_def Let_def)
  have f5: "files s5 = (files s)(tempFile \<mapsto> stream)" by (simp add: s5_def)
  have r5: "region s5 = fst (getRegion cfg e (snd (getRegion cfg e s)))"
    using r3 by (simp add: s5_def s4_def)
  have d5: "removals s5 = removals s"
    using d3 by (simp add: s5_def s4_def)
  have "DownloadAgent cfg e s =
      (case getRegion cfg e s5 of
         (r, s6) \<Rightarrow>
           if checksum \<noteq> hex (md5 stream)
           then (Some (Errorf (''mismatched md5sum while downloading '' @ AgentRemoteTarball cfg r)),
                 removeTempFile e tempFile
                   (Some (Errorf (''mismatched md5sum while downloading '' @ AgentRemoteTarball cfg r))) s6)
           else (case fs_Rename e tempFile (AgentTarball cfg) s6 of
                   (res, s7) \<Rightarrow> (res, removeTempFile e tempFile None s7)))"
    using mk p2 x2 p3 x3 p4 p5
    by (simp add: DownloadAgent_def fs_MkdirAll_def s1_def [symmetric] Let_def split: prod.split)
  with f5 r5 d5 show ?thesis by blast
qed

lemma removeTempFile_None [simp]: "removeTempFile e tempFile None s = s"
  by (simp add: removeTempFile_def)

subsection \<open>What a download leaves alone\<close>

lemma getPublishedMd5Sum_files [simp]: "files (snd (getPublishedMd5Sum cfg e s)) = files s"
proof -
  obtain r s1 where g: "getRegion cfg e s = (r, s1)" by (cases "getRegion cfg e s")
  then have "files s1 = files s" using getRegion_files [of cfg e s] by simp
  with g show ?thesis
    by (auto simp: getPublishedMd5Sum_def http_Get_def fs_ReadAll_def Let_def split: sum.splits option.splits)
qed

lemma getPublishedTarball_files [simp]: "files (snd (getPublishedTarball cfg e s)) = files s"
proof -
  obtain r s1 where g: "getRegion cfg e s = (r, s1)" by (cases "getRegion cfg e s")
  then have "files s1 = files s" using getRegion_files [of cfg e s] by simp
  with g show ?thesis
    by (auto simp: getPublishedTarball_def http_Get_def Let_def split: sum.splits)
qed

lemma fs_TempFile_files:
  assumes "fs_TempFile e dir pfx s = (x, s')"
  shows "(case x of Inl err \<Rightarrow> files s' = files s
          | Inr name \<Rightarrow> (\<exists>sfx. name = dir @ ''/'' @ pfx @ sfx) \<and>
                        (\<forall>p. p \<noteq> name \<longrightarrow> files s' p = files s p))"
  using assms by (auto simp: fs_TempFile_def Let_def split: sum.splits if_splits)

lemma fs_Copy_files: "p \<noteq> name \<Longrightarrow> files (snd (fs_Copy e name body s)) p = files s p"
  by (auto simp: fs_Copy_def Let_def split: option.splits)

lemma removeTempFile_files: "p \<noteq> name \<Longrightarrow> files (removeTempFile e name err s) p = files s p"
  by (auto simp: removeTempFile_def fs_Remove_def Let_def split: option.splits)

lemma fs_Rename_files:
  "p \<noteq> old \<Longrightarrow> p \<noteq> new \<Longrightarrow> files (snd (fs_Rename e old new s)) p = files s p"
  by (auto simp: fs_Rename_def Let_def split: option.splits)

lemma DownloadAgent_frame:
  assumes "p \<noteq> AgentTarball cfg" and "\<not> prefix (tempName cfg []) p"
  shows "files (snd (DownloadAgent cfg e s)) p = files s p"
proof -
  define s1 where "s1 = logged (CallMkdirAll (CacheDirectory cfg) (ModeDir OR orwPerm)) s"
  obtain x2 s2 where p2: "getPublishedMd5Sum cfg e s1 = (x2, s2)"
    by (cases "getPublishedMd5Sum cfg e s1")
  obtain x3 s3 where p3: "getPublishedTarball cfg e s2 = (x3, s3)"
    by (cases "getPublishedTarball cfg e s2")
  obtain x4 s4 where p4: "fs_TempFile e (CacheDirectory cfg) ''ecs-agent.tar'' s3 = (x4, s4)"
    by (cases "fs_TempFile e (CacheDirectory cfg) ''ecs-agent.tar'' s3")
  have f1: "files s1 = files s" by (simp add: s1_def)
  have f2: "files s2 = files s" using p2 getPublishedMd5Sum_files [of cfg e s1] f1 by simp
  have f3: "files s3 = files s" using p3 getPublishedTarball_files [of cfg e s2] f2 by simp
  show ?thesis
  proof (cases "mkdir_fault e")
    case (Some err)
    then show ?thesis by (simp add: DownloadAgent_def fs_MkdirAll_def)
  next
    case None
    note mk = this
    show ?thesis
    proof (cases x2)
      case (Inl err)
      then show ?thesis
        using mk p2 f2 by (simp add: DownloadAgent_def fs_MkdirAll_def s1_def [symmetric])
    next
      case (Inr publishedMd5Sum)
      note m = this
      show ?thesis
      proof (cases x3)
        case (Inl err)
        then show ?thesis
          using mk p2 m p3 f3 by (simp add: DownloadAgent_def fs_MkdirAll_def s1_def [symmetric])
      next
        case (Inr reader)
        note a = this
        show ?thesis
        proof (cases x4)
          case (Inl err)
          then have "files s4 = files s3" using fs_TempFile_files [OF p4] by simp
          then show ?thesis
            using mk p2 m p3 a p4 Inl f3
            by (simp add: DownloadAgent_def fs_MkdirAll_def s1_def [symmetric])
        next
          case (Inr tempFile)
          then obtain sfx where n: "tempFile = CacheDirectory cfg @ ''/'' @ ''ecs-agent.tar'' @ sfx"
            and f4': "\<forall>q. q \<noteq> tempFile \<longrightarrow> files s4 q = files s3 q"
            using fs_TempFile_files [OF p4] by auto
          have "prefix (tempName cfg []) tempFile" by (simp add: n tempName_def)
          with assms(2) have pt: "p \<noteq> tempFile" by auto
          with f4' f3 have f4: "files s4 p = files s p" by simp
          obtain x5 h5 s5 where p5: "fs_Copy e tempFile reader s4 = ((x5, h5), s5)"
            by (cases "fs_Copy e tempFile reader s4") auto
          have f5: "files s5 p = files s p"
            using fs_Copy_files [OF pt, of e reader s4] p5 f4 by simp
          obtain r s6 where p6: "getRegion cfg e s5 = (r, s6)" by (cases "getRegion cfg e s5")
          have f6: "files s6 p = files s p" using p6 getRegion_files [of cfg e s5] f5 by simp
          obtain x7 s7 where p7: "fs_Rename e tempFile (AgentTarball cfg) s6 = (x7, s7)"
            by (cases "fs_Rename e tempFile (AgentTarball cfg) s6")
          have f7: "files s7 p = files s p"
            using fs_Rename_files [OF pt assms(1), of e s6] p7 f6 by simp
          show ?thesis
            using mk p2 m p3 a p4 Inr p5 p6 p7 f5 f6 f7 removeTempFile_files [OF pt]
            by (cases x5)
              (simp_all add: DownloadAgent_def fs_MkdirAll_def s1_def [symmetric] Let_def)
        qed
      qed
    qed
  qed
qed

subsection \<open>White space and base names\<close>

lemma prefix_before_sep:
  assumes "c \<notin> set w"
  shows "prefix w (x @ c # t) \<longleftrightarrow> prefix w x"
proof
  assume "prefix w (x @ c # t)"
  then have "prefix w x \<or> (\<exists>us. w = x @ us \<and> prefix us (c # t))"
    by (simp add: prefix_append)
  then show "prefix w x"
  proof (elim disjE exE conjE)
    fix us assume w: "w = x @ us" and p: "prefix us (c # t)"
    show "prefix w x"
    proof (cases us)
      case Nil
      with w show ?thesis by simp
    next
      case (Cons a as)
      with p have "a = c" by simp
      with Cons w assms show ?thesis by simp
    qed
  qed
next
  assume "prefix w x" then show "prefix w (x @ c # t)" by (rule prefix_prefix)
qed

lemma leading_before_sep:
  "(\<forall>w\<in>set ws. c \<notin> set w) \<Longrightarrow> leading ws (x @ c # t) = leading ws x"
  by (induction ws) (simp_all add: prefix_before_sep)

lemma strip_leading_none: "leading ws s = 0 \<Longrightarrow> strip_leading ws s = s"
  by (simp add: strip_leading.simps)

lemma strip_leading_length: "length (strip_leading ws s) \<le> length s"
proof (induction ws s rule: strip_leading.induct)
  case (1 ws s)
  show ?case
  proof (cases "leading ws s = 0")
    case True then show ?thesis by (simp add: strip_leading.simps)
  next
    case False
    with 1 have "length (strip_leading ws (drop (leading ws s) s)) \<le> length s - leading ws s"
      by simp
    with False show ?thesis by (subst strip_leading.simps) simp
  qed
qed

lemma strip_leading_fixed: "strip_leading ws s = s \<Longrightarrow> leading ws s = 0"
proof (rule ccontr)
  assume eq: "strip_leading ws s = s" and pos: "leading ws s \<noteq> 0"
  have "length (strip_leading ws (drop (leading ws s) s)) \<le> length (drop (leading ws s) s)"
    by (rule strip_leading_length)
  moreover have "strip_leading ws s = strip_leading ws (drop (leading ws s) s)"
    using pos by (subst strip_leading.simps) simp
  moreover have "leading ws s \<le> length s" by (rule leading_le)
  ultimately have "length (strip_leading ws s) < length s" using pos by simp
  with eq show False by simp
qed

lemma no_slash_in_space_runes: "\<forall>w\<in>set space_runes. CHR ''/'' \<notin> set w"
  by (simp add: space_runes_def)

lemma no_slash_in_rev_space_runes: "\<forall>w\<in>set (map rev space_runes). CHR ''/'' \<notin> set w"
  by (simp add: space_runes_def)

lemma leading_rev_newline: "leading (map rev space_runes) (CHR 0x0A # t) = 1"
  by (simp add: space_runes_def)

lemma TrimSpace_joined:
  assumes "leading space_runes d = 0" and "leading (map rev space_runes) (rev b) = 0"
  shows "TrimSpace (d @ ''/'' @ b @ [CHR 0x0A]) = d @ ''/'' @ b"
proof -
  have "leading space_runes (d @ CHR ''/'' # (b @ [CHR 0x0A])) = 0"
    using leading_before_sep [OF no_slash_in_space_runes] assms(1) by simp
  then have left: "TrimLeftSpace (d @ ''/'' @ b @ [CHR 0x0A]) = d @ ''/'' @ b @ [CHR 0x0A]"
    by (simp add: TrimLeftSpace_def strip_leading_none)
  have "leading (map rev space_runes) (rev b @ CHR ''/'' # rev d) = 0"
    using leading_before_sep [OF no_slash_in_rev_space_runes] assms(2) by simp
  then have "strip_leading (map rev space_runes) (rev b @ CHR ''/'' # rev d) = rev b @ CHR ''/'' # rev d"
    by (rule strip_leading_none)
  then have "strip_leading (map rev space_runes) (CHR 0x0A # rev b @ CHR ''/'' # rev d) =
      rev b @ CHR ''/'' # rev d"
    by (subst strip_leading.simps) (simp add: leading_rev_newline)
  then have "TrimRightSpace (d @ ''/'' @ b @ [CHR 0x0A]) = d @ ''/'' @ b"
    by (simp add: TrimRightSpace_def)
  with left show ?thesis by (simp add: TrimSpace_def)
qed

lemma TrimSpace_fixed:
  assumes "TrimSpace c = c"
  shows "leading space_runes c = 0" and "leading (map rev space_runes) (rev c) = 0"
proof -
  have "length (TrimRightSpace (TrimLeftSpace c)) \<le> length (TrimLeftSpace c)"
    using strip_leading_length [of "map rev space_runes" "rev (TrimLeftSpace c)"]
    by (simp add: TrimRightSpace_def)
  then have "length c \<le> length (TrimLeftSpace c)" using assms by (simp add: TrimSpace_def)
  moreover have "length (TrimLeftSpace c) \<le> length c"
    by (simp add: TrimLeftSpace_def strip_leading_length)
  ultimately have len: "length (strip_leading space_runes c) = length c"
    by (simp add: TrimLeftSpace_def)
  show l: "leading space_runes c = 0"
  proof (rule ccontr)
    assume pos: "leading space_runes c \<noteq> 0"
    have "length (strip_leading space_runes (drop (leading space_runes c) c)) \<le>
        length (drop (leading space_runes c) c)"
      by (rule strip_leading_length)
    moreover have "strip_leading space_runes c =
        strip_leading space_runes (drop (leading space_runes c) c)"
      using pos by (subst strip_leading.simps) simp
    moreover have "leading space_runes c \<le> length c" by (rule leading_le)
    ultimately have "length (strip_leading space_runes c) < length c" using pos by simp
    with len show False by simp
  qed
  then have "TrimLeftSpace c = c" by (simp add: TrimLeftSpace_def strip_leading_none)
  with assms have "rev (strip_leading (map rev space_runes) (rev c)) = c"
    by (simp add: TrimSpace_def TrimRightSpace_def)
  then have "strip_leading (map rev space_runes) (rev c) = rev c"
    by (metis rev_rev_ident)
  then show "leading (map rev space_runes) (rev c) = 0" by (rule strip_leading_fixed)
qed

lemma TrimLeftSpace_fixed: "TrimLeftSpace d = d \<Longrightarrow> leading space_runes d = 0"
  by (simp add: TrimLeftSpace_def strip_leading_fixed)

lemma fs_Base_line:
  "fs_Base (c @ [CHR 0x0A]) = rev (takeWhile (\<lambda>x. x \<noteq> CHR ''/'') (rev c)) @ [CHR 0x0A]"
  by (simp add: fs_Base_def Let_def)

lemma fs_Base_plain:
  assumes "c \<noteq> []" and "last c \<noteq> CHR ''/''"
  shows "fs_Base c = rev (takeWhile (\<lambda>x. x \<noteq> CHR ''/'') (rev c))"
proof -
  obtain x xs where r: "rev c = x # xs" using assms(1) by (cases "rev c") auto
  have "hd (rev c) = last c" by (rule hd_rev)
  with r assms(2) have "x \<noteq> CHR ''/''" by simp
  with r assms(1) show ?thesis by (simp add: fs_Base_def Let_def)
qed

lemma leading_takeWhile_sep:
  assumes "\<forall>w\<in>set ws. c \<notin> set w"
  shows "leading ws (takeWhile (\<lambda>x. x \<noteq> c) s) = leading ws s"
proof -
  define tw where "tw = takeWhile (\<lambda>x. x \<noteq> c) s"
  define dw where "dw = dropWhile (\<lambda>x. x \<noteq> c) s"
  have s: "s = tw @ dw" by (simp add: tw_def dw_def)
  show ?thesis
  proof (cases dw)
    case Nil
    with s have "tw = s" by simp
    then show ?thesis by (simp only: tw_def [symmetric])
  next
    case (Cons y ys)
    have "dw \<noteq> [] \<Longrightarrow> \<not> (hd dw \<noteq> c)"
      unfolding dw_def by (rule hd_dropWhile)
    with Cons have "y = c" by simp
    with Cons s have "s = tw @ c # ys" by simp
    moreover have "leading ws (tw @ c # ys) = leading ws tw"
      by (rule leading_before_sep [OF assms])
    ultimately have "leading ws s = leading ws tw" by (simp only:)
    then show ?thesis by (simp only: tw_def [symmetric])
  qed
qed

lemma getDesiredImageFile_line:
  assumes "open_fault e (DesiredImageLocatorFile cfg) = None"
    and "files s (DesiredImageLocatorFile cfg) = Some content"
    and "CHR 0x0A \<in> set content"
  shows "getDesiredImageFile cfg e s =
           (Inr (TrimSpace (CacheDirectory cfg @ ''/'' @
                  fs_Base (takeWhile (\<lambda>c. c \<noteq> CHR 0x0A) content @ [CHR 0x0A]))),
            logged (CallOpen (DesiredImageLocatorFile cfg)) s)"
  using assms by (simp add: getDesiredImageFile_def fs_Open_def ReadString_def)

subsection \<open>The scenarios\<close>

lemma replicate_numeral: "replicate (numeral k) x = x # replicate (pred_numeral k) x"
  by (simp only: numeral_eq_Suc replicate_Suc)

lemma le_bytes_numeral: "le_bytes (numeral k) n = char_of n # le_bytes (pred_numeral k) (n div 256)"
  by (simp only: numeral_eq_Suc le_bytes.simps)

lemma md5_hello_agent: "hex (md5 ''hello-agent'') = ''55184970d69063e3bedc39abaf4a2f75''"
  by (simp add: hex_def hexdigit_def md5_def md5_pad_def replicate_numeral le_bytes_numeral
      md5_blocks.simps md5_block_def md5_round1_def md5_round2_def md5_round3_def md5_round4_def
      md5_step_def md5_F_def md5_G_def md5_H_def md5_I_def rotl_def)

lemma TrimSpace_digest_line:
  "TrimSpace (''55184970d69063e3bedc39abaf4a2f75'' @ [CHR 0x0A]) = ''55184970d69063e3bedc39abaf4a2f75''"
  "TrimSpace (''d41d8cd98f00b204e9800998ecf8427e'' @ [CHR 0x0A]) = ''d41d8cd98f00b204e9800998ecf8427e''"
  by (simp_all add: TrimSpace_def TrimLeftSpace_def TrimRightSpace_def strip_leading.simps space_runes_def)

lemmas run_defs =
  DownloadAgent_def getPublishedMd5Sum_def getPublishedTarball_def getRegion_def metadata_call_def
  http_Get_def fs_MkdirAll_def fs_ReadAll_def fs_TempFile_def fs_Copy_def fs_Rename_def fs_Remove_def
  removeTempFile_def logged_def StatusOK_def Let_def

lemma delivers_hello:
  "delivers cfg0 env_hello s_old ''55184970d69063e3bedc39abaf4a2f75'' ''hello-agent''
     ''/var/cache/ecs/ecs-agent.tar123456789''"
proof -
  have u: "manifestURL cfg0 env_hello s_old = ''https://s3.us-west-2.example/ecs-agent.tar.md5''"
    "artifactURL cfg0 env_hello s_old = ''https://s3.us-west-2.example/ecs-agent.tar''"
    by (simp_all add: manifestURL_def artifactURL_def getRegion_def metadata_call_def logged_def
        env_hello_def env0_def s_old_def s0_def cfg0_def)
  show ?thesis
    unfolding delivers_def u
    using TrimSpace_digest_line
    by (simp add: env_hello_def env0_def s_old_def s0_def cfg0_def tempName_def StatusOK_def)
qed

lemma delivers_other_digest:
  "delivers cfg0 env_other_digest s_old ''d41d8cd98f00b204e9800998ecf8427e'' ''hello-agent''
     ''/var/cache/ecs/ecs-agent.tar123456789''"
proof -
  have u: "manifestURL cfg0 env_other_digest s_old = ''https://s3.us-west-2.example/ecs-agent.tar.md5''"
    "artifactURL cfg0 env_other_digest s_old = ''https://s3.us-west-2.example/ecs-agent.tar''"
    by (simp_all add: manifestURL_def artifactURL_def getRegion_def metadata_call_def logged_def
        env_other_digest_def env0_def s_old_def s0_def cfg0_def)
  show ?thesis
    unfolding delivers_def u
    using TrimSpace_digest_line
    by (simp add: env_other_digest_def env0_def s_old_def s0_def cfg0_def tempName_def StatusOK_def)
qed

lemma delivers_rename_fails:
  "delivers cfg0 env_rename_fails s_old ''55184970d69063e3bedc39abaf4a2f75'' ''hello-agent''
     ''/var/cache/ecs/ecs-agent.tar123456789''"
proof -
  have u: "manifestURL cfg0 env_rename_fails s_old = ''https://s3.us-west-2.example/ecs-agent.tar.md5''"
    "artifactURL cfg0 env_rename_fails s_old = ''https://s3.us-west-2.example/ecs-agent.tar''"
    by (simp_all add: manifestURL_def artifactURL_def getRegion_def metadata_call_def logged_def
        env_rename_fails_def env_hello_def env0_def s_old_def s0_def cfg0_def)
  show ?thesis
    unfolding delivers_def u
    using TrimSpace_digest_line
    by (simp add: env_rename_fails_def env_hello_def env0_def s_old_def s0_def cfg0_def tempName_def
        StatusOK_def)
qed

section \<open>The claims\<close>

subsection \<open>C1: a download whose digest matches is promoted\<close>

text \<open>
  Claim C1. For every input stream and published checksum such that the MD5 digest of
  the streamed bytes in lower-case hexadecimal equals the trimmed manifest body,
  \<^verbatim>\<open>DownloadAgent\<close> returns no error, and afterwards the canonical artifact file
  holds exactly the streamed bytes, the temporary file having been renamed onto the
  canonical path. The stream and the checksum are what the capabilities deliver
  (\<open>delivers\<close>: the manifest body, trimmed, is \<open>checksum\<close>; the artifact body
  delivers \<open>stream\<close> into a fresh temporary file), and the rename is one that does not
  fail (claim C5 is the case where it does). Every path but the canonical one is as it
  was before, so the temporary file does not exist any more; the last call made is the
  rename of the temporary file onto the canonical path, and nothing was removed.
\<close>

theorem DownloadAgent_match:
  assumes "delivers cfg e s checksum stream tempFile"
    and "hex (md5 stream) = checksum"
    and "rename_fault e = None"
  shows "fst (DownloadAgent cfg e s) = None \<and>
         files (snd (DownloadAgent cfg e s)) = (files s)(AgentTarball cfg \<mapsto> stream) \<and>
         last (calls (snd (DownloadAgent cfg e s))) = CallRename tempFile (AgentTarball cfg) \<and>
         removals (snd (DownloadAgent cfg e s)) = removals s"
proof -
  from DownloadAgent_delivered [OF assms(1)] obtain s5 where
    f5: "files s5 = (files s)(tempFile \<mapsto> stream)" and
    d5: "removals s5 = removals s" and
    run: "DownloadAgent cfg e s =
      (case getRegion cfg e s5 of
         (r, s6) \<Rightarrow>
           if checksum \<noteq> hex (md5 stream)
           then (Some (Errorf (''mismatched md5sum while downloading '' @ AgentRemoteTarball cfg r)),
                 removeTempFile e tempFile
                   (Some (Errorf (''mismatched md5sum while downloading '' @ AgentRemoteTarball cfg r))) s6)
           else (case fs_Rename e tempFile (AgentTarball cfg) s6 of
                   (res, s7) \<Rightarrow> (res, removeTempFile e tempFile None s7)))"
    by blast
  obtain r s6 where g: "getRegion cfg e s5 = (r, s6)" by (cases "getRegion cfg e s5")
  have f6: "files s6 = (files s)(tempFile \<mapsto> stream)"
    using g f5 getRegion_files [of cfg e s5] by simp
  have d6: "removals s6 = removals s"
    using g d5 getRegion_removals [of cfg e s5] by simp
  have fresh: "files s tempFile = None" using assms(1) by (simp add: delivers_def)
  have ren: "fs_Rename e tempFile (AgentTarball cfg) s6 =
      (None, (logged (CallRename tempFile (AgentTarball cfg)) s6)
               \<lparr>files := ((files s6)(tempFile := None))(AgentTarball cfg \<mapsto> stream)\<rparr>)"
    using assms(3) f6 by (simp add: fs_Rename_def Let_def)
  have same: "((files s6)(tempFile := None))(AgentTarball cfg \<mapsto> stream) =
      (files s)(AgentTarball cfg \<mapsto> stream)"
    using f6 fresh by (auto simp: fun_eq_iff)
  show ?thesis
    using run g ren same d6 assms(2) by simp
qed

theorem DownloadAgent_match_witness:
  "fst (DownloadAgent cfg0 env_hello s_old) = None \<and>
   files (snd (DownloadAgent cfg0 env_hello s_old)) ''/var/cache/ecs/ecs-agent.tar'' =
     Some ''hello-agent'' \<and>
   files (snd (DownloadAgent cfg0 env_hello s_old)) ''/var/cache/ecs/ecs-agent.tar123456789'' = None"
proof -
  have r: "rename_fault env_hello = None" by (simp add: env_hello_def env0_def)
  from DownloadAgent_match [OF delivers_hello md5_hello_agent r]
  show ?thesis by (simp add: s_old_def s0_def cfg0_def)
qed

subsection \<open>C2: a download whose digest does not match is discarded\<close>

text \<open>
  Claim C2. For every input stream and published checksum, as the capabilities deliver
  them (\<open>delivers\<close>), such that the computed digest differs from the trimmed manifest
  string (compared as strings), and with a removal of the temporary file that does not
  fail: \<^verbatim>\<open>DownloadAgent\<close> returns the mismatch error, whose message names the
  artifact URL built from the region the downloader holds (the URL the artifact was
  requested from, whenever the region resolved to a non-empty string); the temporary
  download file does not exist afterwards; and every file, the canonical artifact among
  them, is exactly as it was before. One removal was made, of the temporary file.
\<close>

theorem DownloadAgent_mismatch:
  assumes "delivers cfg e s checksum stream tempFile"
    and "hex (md5 stream) \<noteq> checksum"
    and "remove_fault e = None"
  shows "fst (DownloadAgent cfg e s) =
           Some (Errorf (''mismatched md5sum while downloading '' @
                         AgentRemoteTarball cfg (region (snd (DownloadAgent cfg e s))))) \<and>
         (fst (getRegion cfg e s) \<noteq> [] \<longrightarrow>
            AgentRemoteTarball cfg (region (snd (DownloadAgent cfg e s))) = artifactURL cfg e s) \<and>
         files (snd (DownloadAgent cfg e s)) tempFile = None \<and>
         files (snd (DownloadAgent cfg e s)) (AgentTarball cfg) = files s (AgentTarball cfg) \<and>
         files (snd (DownloadAgent cfg e s)) = files s \<and>
         removals (snd (DownloadAgent cfg e s)) = removals s @ [CallRemove tempFile]"
proof -
  from DownloadAgent_delivered [OF assms(1)] obtain s5 where
    f5: "files s5 = (files s)(tempFile \<mapsto> stream)" and
    r5: "region s5 = fst (getRegion cfg e (snd (getRegion cfg e s)))" and
    d5: "removals s5 = removals s" and
    run: "DownloadAgent cfg e s =
      (case getRegion cfg e s5 of
         (r, s6) \<Rightarrow>
           if checksum \<noteq> hex (md5 stream)
           then (Some (Errorf (''mismatched md5sum while downloading '' @ AgentRemoteTarball cfg r)),
                 removeTempFile e tempFile
                   (Some (Errorf (''mismatched md5sum while downloading '' @ AgentRemoteTarball cfg r))) s6)
           else (case fs_Rename e tempFile (AgentTarball cfg) s6 of
                   (res, s7) \<Rightarrow> (res, removeTempFile e tempFile None s7)))"
    by blast
  obtain r s6 where g: "getRegion cfg e s5 = (r, s6)" by (cases "getRegion cfg e s5")
  have f6: "files s6 = (files s)(tempFile \<mapsto> stream)"
    using g f5 getRegion_files [of cfg e s5] by simp
  have r6: "region s6 = r" using g getRegion_region [of cfg e s5] by simp
  have d6: "removals s6 = removals s"
    using g d5 getRegion_removals [of cfg e s5] by simp
  have fresh: "files s tempFile = None" using assms(1) by (simp add: delivers_def)
  define s7 where "s7 = (logged (CallRemove tempFile) s6)\<lparr>files := (files s6)(tempFile := None)\<rparr>"
  have rm: "removeTempFile e tempFile (Some x) s6 = s7" for x
    using assms(3) f6 by (simp add: removeTempFile_def fs_Remove_def Let_def s7_def)
  have res: "DownloadAgent cfg e s =
      (Some (Errorf (''mismatched md5sum while downloading '' @ AgentRemoteTarball cfg r)), s7)"
    using run g rm assms(2) by auto
  have f7: "files s7 = files s" using f6 fresh by (auto simp: s7_def fun_eq_iff)
  have r7: "region s7 = r" using r6 by (simp add: s7_def)
  have d7: "removals s7 = removals s @ [CallRemove tempFile]"
    using d6 by (simp add: s7_def)
  have url: "AgentRemoteTarball cfg r = artifactURL cfg e s" if "fst (getRegion cfg e s) \<noteq> []"
  proof -
    have "region s5 = fst (getRegion cfg e s)" using r5 that by (simp add: getRegion_again)
    then have "r = fst (getRegion cfg e s)" using g that by (simp add: getRegion_set)
    then show ?thesis using that by (simp add: artifactURL_def getRegion_again)
  qed
  show ?thesis using res f7 r7 d7 url fresh by simp
qed

theorem DownloadAgent_mismatch_witness:
  "fst (DownloadAgent cfg0 env_other_digest s_old) =
     Some (Errorf ''mismatched md5sum while downloading https://s3.us-west-2.example/ecs-agent.tar'') \<and>
   files (snd (DownloadAgent cfg0 env_other_digest s_old)) ''/var/cache/ecs/ecs-agent.tar123456789'' = None \<and>
   files (snd (DownloadAgent cfg0 env_other_digest s_old)) ''/var/cache/ecs/ecs-agent.tar'' =
     Some ''old-agent''"
proof -
  have mm: "hex (md5 ''hello-agent'') \<noteq> ''d41d8cd98f00b204e9800998ecf8427e''"
    using md5_hello_agent by simp
  have rm: "remove_fault env_other_digest = None" by (simp add: env_other_digest_def env0_def)
  have ne: "fst (getRegion cfg0 env_other_digest s_old) \<noteq> []"
    by (simp add: getRegion_def metadata_call_def env_other_digest_def env0_def s_old_def s0_def)
  have url: "artifactURL cfg0 env_other_digest s_old = ''https://s3.us-west-2.example/ecs-agent.tar''"
    by (simp add: artifactURL_def getRegion_def metadata_call_def logged_def
        env_other_digest_def env0_def s_old_def s0_def cfg0_def)
  from DownloadAgent_mismatch [OF delivers_other_digest mm rm] ne url
  show ?thesis by (simp add: s_old_def s0_def cfg0_def)
qed

subsection \<open>C3: a manifest answered with an error status\<close>

text \<open>
  Claim C3 says that \<^verbatim>\<open>DownloadAgent\<close> fails, before the artifact is fetched, whenever
  the manifest request is answered with a non-success status. \<^verbatim>\<open>getPublishedMd5Sum\<close>
  checks the error of \<^verbatim>\<open>Get\<close> only and never reads \<^verbatim>\<open>resp.StatusCode\<close>, unlike
  \<^verbatim>\<open>getPublishedTarball\<close> beside it. With the manifest request answered by status
  404 and an error document, the code takes the document for the checksum, goes on to
  request the artifact, copies it into a temporary file, and fails only at the
  comparison, with the mismatch error. With status 404 and a body that happens to be
  the digest of the artifact, it returns no error at all and installs the artifact.
\<close>

theorem DownloadAgent_manifest_404:
  "fst (DownloadAgent cfg0 env_manifest_404 s0) =
     Some (Errorf ''mismatched md5sum while downloading https://s3.us-west-2.example/ecs-agent.tar'') \<and>
   calls (snd (DownloadAgent cfg0 env_manifest_404 s0)) =
     [CallMkdirAll ''/var/cache/ecs'' (ModeDir OR orwPerm), CallRegion,
      CallGet ''https://s3.us-west-2.example/ecs-agent.tar.md5'', CallReadAll,
      CallGet ''https://s3.us-west-2.example/ecs-agent.tar'',
      CallTempFile ''/var/cache/ecs'' ''ecs-agent.tar'',
      CallCopy ''/var/cache/ecs/ecs-agent.tar123456789'',
      CallRemove ''/var/cache/ecs/ecs-agent.tar123456789''] \<and>
   fst (DownloadAgent cfg0 env_manifest_404_digest s0) = None \<and>
   files (snd (DownloadAgent cfg0 env_manifest_404_digest s0)) ''/var/cache/ecs/ecs-agent.tar'' =
     Some ''hello-agent''"
proof -
  have trim: "TrimSpace ''<Error><Code>NoSuchKey</Code></Error>'' =
      ''<Error><Code>NoSuchKey</Code></Error>''"
    by (simp add: TrimSpace_def TrimLeftSpace_def TrimRightSpace_def strip_leading.simps
        space_runes_def)
  have first: "DownloadAgent cfg0 env_manifest_404 s0 =
      (Some (Errorf ''mismatched md5sum while downloading https://s3.us-west-2.example/ecs-agent.tar''),
       \<lparr> region = ''us-west-2'', files = Map.empty,
         calls = [CallMkdirAll ''/var/cache/ecs'' (ModeDir OR orwPerm), CallRegion,
                  CallGet ''https://s3.us-west-2.example/ecs-agent.tar.md5'', CallReadAll,
                  CallGet ''https://s3.us-west-2.example/ecs-agent.tar'',
                  CallTempFile ''/var/cache/ecs'' ''ecs-agent.tar'',
                  CallCopy ''/var/cache/ecs/ecs-agent.tar123456789'',
                  CallRemove ''/var/cache/ecs/ecs-agent.tar123456789''] \<rparr>)"
    using md5_hello_agent trim
    by (simp add: run_defs env_manifest_404_def env0_def s0_def cfg0_def)
  have second: "fst (DownloadAgent cfg0 env_manifest_404_digest s0) = None"
    "files (snd (DownloadAgent cfg0 env_manifest_404_digest s0)) ''/var/cache/ecs/ecs-agent.tar'' =
       Some ''hello-agent''"
    using md5_hello_agent TrimSpace_digest_line
    by (simp_all add: run_defs env_manifest_404_digest_def env0_def s0_def cfg0_def)
  show ?thesis using first second by simp
qed

subsection \<open>C4: IsAgentCached\<close>

text \<open>
  Claim C4. \<^verbatim>\<open>IsAgentCached\<close> returns true if and only if \<^verbatim>\<open>Stat\<close> succeeds on the
  state marker file and on the canonical artifact file and reports a size greater than
  zero for both, that is, if and only if both files exist with content of non-zero
  length and neither \<^verbatim>\<open>Stat\<close> is refused; a missing file or a refused \<^verbatim>\<open>Stat\<close>
  on either makes it return false. It always returns a boolean, and leaves the files and
  the region as they are.
\<close>

theorem IsAgentCached_iff:
  "(fst (IsAgentCached cfg e s) \<longleftrightarrow>
      (stat_fault e (CacheState cfg) = None \<and>
        (\<exists>c. files s (CacheState cfg) = Some c \<and> 0 < length c)) \<and>
      (stat_fault e (AgentTarball cfg) = None \<and>
        (\<exists>c. files s (AgentTarball cfg) = Some c \<and> 0 < length c))) \<and>
   (fst (IsAgentCached cfg e s) \<longleftrightarrow>
      (\<exists>n. fst (fs_Stat e (CacheState cfg) s) = Inr n \<and> 0 < n) \<and>
      (\<exists>n. fst (fs_Stat e (AgentTarball cfg) s) = Inr n \<and> 0 < n)) \<and>
   files (snd (IsAgentCached cfg e s)) = files s \<and>
   region (snd (IsAgentCached cfg e s)) = region s"
proof -
  obtain b s' where f: "fileNotEmpty e (CacheState cfg) s = (b, s')"
    by (cases "fileNotEmpty e (CacheState cfg) s")
  have b: "b \<longleftrightarrow> stat_fault e (CacheState cfg) = None \<and>
      (\<exists>c. files s (CacheState cfg) = Some c \<and> c \<noteq> [])"
    using fileNotEmpty_fst [of e "CacheState cfg" s] f by simp
  have s': "s' = logged (CallStat (CacheState cfg)) s"
    using fileNotEmpty_snd [of e "CacheState cfg" s] f by simp
  have st: "(\<exists>n. fst (fs_Stat e name s) = Inr n \<and> 0 < n) \<longleftrightarrow>
      stat_fault e name = None \<and> (\<exists>c. files s name = Some c \<and> c \<noteq> [])" for name
    by (auto simp: fs_Stat_def split: option.splits)
  show ?thesis
  proof (cases b)
    case True
    then have "IsAgentCached cfg e s = fileNotEmpty e (AgentTarball cfg) s'"
      using f by (simp add: IsAgentCached_def)
    then show ?thesis
      using True b s' by (simp add: fileNotEmpty_fst fileNotEmpty_snd st)
  next
    case False
    then have "IsAgentCached cfg e s = (False, s')"
      using f by (simp add: IsAgentCached_def)
    then show ?thesis
      using False b s' by (auto simp: st)
  qed
qed

subsection \<open>C5: the rename fails\<close>

text \<open>
  Claim C5. When the digests match but the rename of the temporary file onto the
  canonical path fails, \<^verbatim>\<open>DownloadAgent\<close> returns the error of the rename; the
  temporary file is left in place with the streamed bytes and no removal is made (the
  deferred function sees the \<^verbatim>\<open>nil\<close> left in \<^verbatim>\<open>err\<close>); every other file is as
  it was before, and so is the canonical artifact, whose path is not the fresh temporary
  file's.
\<close>

theorem DownloadAgent_rename_fails:
  assumes "delivers cfg e s checksum stream tempFile"
    and "hex (md5 stream) = checksum"
    and "rename_fault e = Some err"
  shows "fst (DownloadAgent cfg e s) = Some err \<and>
         files (snd (DownloadAgent cfg e s)) = (files s)(tempFile \<mapsto> stream) \<and>
         (tempFile \<noteq> AgentTarball cfg \<or> files s (AgentTarball cfg) \<noteq> None \<longrightarrow>
            files (snd (DownloadAgent cfg e s)) (AgentTarball cfg) = files s (AgentTarball cfg)) \<and>
         removals (snd (DownloadAgent cfg e s)) = removals s"
proof -
  from DownloadAgent_delivered [OF assms(1)] obtain s5 where
    f5: "files s5 = (files s)(tempFile \<mapsto> stream)" and
    d5: "removals s5 = removals s" and
    run: "DownloadAgent cfg e s =
      (case getRegion cfg e s5 of
         (r, s6) \<Rightarrow>
           if checksum \<noteq> hex (md5 stream)
           then (Some (Errorf (''mismatched md5sum while downloading '' @ AgentRemoteTarball cfg r)),
                 removeTempFile e tempFile
                   (Some (Errorf (''mismatched md5sum while downloading '' @ AgentRemoteTarball cfg r))) s6)
           else (case fs_Rename e tempFile (AgentTarball cfg) s6 of
                   (res, s7) \<Rightarrow> (res, removeTempFile e tempFile None s7)))"
    by blast
  obtain r s6 where g: "getRegion cfg e s5 = (r, s6)" by (cases "getRegion cfg e s5")
  have f6: "files s6 = (files s)(tempFile \<mapsto> stream)"
    using g f5 getRegion_files [of cfg e s5] by simp
  have d6: "removals s6 = removals s"
    using g d5 getRegion_removals [of cfg e s5] by simp
  have ren: "fs_Rename e tempFile (AgentTarball cfg) s6 =
      (Some err, logged (CallRename tempFile (AgentTarball cfg)) s6)"
    using assms(3) by (simp add: fs_Rename_def Let_def)
  have fresh: "files s tempFile = None" using assms(1) by (simp add: delivers_def)
  show ?thesis
    using run g ren f6 d6 fresh assms(2) by auto
qed

theorem DownloadAgent_rename_fails_witness:
  "fst (DownloadAgent cfg0 env_rename_fails s_old) = Some (Fault ''invalid cross-device link'') \<and>
   files (snd (DownloadAgent cfg0 env_rename_fails s_old)) ''/var/cache/ecs/ecs-agent.tar'' =
     Some ''old-agent'' \<and>
   files (snd (DownloadAgent cfg0 env_rename_fails s_old)) ''/var/cache/ecs/ecs-agent.tar123456789'' =
     Some ''hello-agent'' \<and>
   removals (snd (DownloadAgent cfg0 env_rename_fails s_old)) = []"
proof -
  have r: "rename_fault env_rename_fails = Some (Fault ''invalid cross-device link'')"
    by (simp add: env_rename_fails_def)
  from DownloadAgent_rename_fails [OF delivers_rename_fails md5_hello_agent r]
  show ?thesis by (simp add: s_old_def s0_def cfg0_def removals_def)
qed

subsection \<open>C6: the region is resolved once\<close>

text \<open>
  Claim C6 says that after the first call of \<^verbatim>\<open>getRegion\<close>, whatever it resolved,
  every later call returns the same string without asking the metadata service again.
  The field \<^verbatim>\<open>d.region\<close> doubles as the flag: empty means not yet resolved. When the
  metadata service answers the first call with an empty region and no error, the second
  call asks again and returns what it is told then.
\<close>

theorem getRegion_empty_not_memoized:
  "getRegion cfg0 env_empty_region s0 =
     ([], \<lparr> region = [], files = Map.empty, calls = [CallRegion] \<rparr>) \<and>
   getRegion cfg0 env_empty_region (snd (getRegion cfg0 env_empty_region s0)) =
     (''us-west-2'', \<lparr> region = ''us-west-2'', files = Map.empty, calls = [CallRegion, CallRegion] \<rparr>)"
  by (simp add: getRegion_def metadata_call_def env_empty_region_def env0_def s0_def logged_def)

text \<open>
  Claim C6, amended. If the first call of \<^verbatim>\<open>getRegion\<close> returns a non-empty string,
  be it the answer of the metadata service or the default region after an error, then
  the downloader holds that string, every call that follows returns it and leaves the
  state as it is (so the metadata service is not asked again), and so does every call in
  any state that holds this region, whatever the capabilities would answer.
\<close>

theorem getRegion_memoized:
  assumes "getRegion cfg e s = (r, s')" and "r \<noteq> []"
  shows "region s' = r \<and>
         (\<forall>n. getRegion cfg e (((\<lambda>t. snd (getRegion cfg e t)) ^^ n) s') = (r, s')) \<and>
         (\<forall>e' t. region t = r \<longrightarrow> getRegion cfg e' t = (r, t))"
proof -
  have r: "region s' = r" using assms(1) getRegion_region [of cfg e s] by simp
  have again: "getRegion cfg e s' = (r, s')" using r assms(2) by (simp add: getRegion_set)
  have iter: "((\<lambda>t. snd (getRegion cfg e t)) ^^ n) s' = s'" for n
    by (induction n) (simp_all add: again)
  show ?thesis using r again iter assms(2) by (simp add: getRegion_set)
qed

theorem getRegion_memoized_witness:
  "getRegion cfg0 env_region_fallback s0 =
     (''us-east-1'', \<lparr> region = ''us-east-1'', files = Map.empty, calls = [CallRegion] \<rparr>) \<and>
   getRegion cfg0 env_region_fallback (snd (getRegion cfg0 env_region_fallback s0)) =
     (''us-east-1'', \<lparr> region = ''us-east-1'', files = Map.empty, calls = [CallRegion] \<rparr>)"
proof -
  have run: "getRegion cfg0 env_region_fallback s0 =
      (''us-east-1'', \<lparr> region = ''us-east-1'', files = Map.empty, calls = [CallRegion] \<rparr>)"
    by (simp add: getRegion_def metadata_call_def env_region_fallback_def env0_def s0_def
        cfg0_def logged_def)
  have ne: "''us-east-1'' \<noteq> []" by simp
  from getRegion_memoized [OF run ne] have
    "getRegion cfg0 env_region_fallback
       (((\<lambda>t. snd (getRegion cfg0 env_region_fallback t)) ^^ 0)
          \<lparr> region = ''us-east-1'', files = Map.empty, calls = [CallRegion] \<rparr>) =
       (''us-east-1'', \<lparr> region = ''us-east-1'', files = Map.empty, calls = [CallRegion] \<rparr>)"
    by blast
  then show ?thesis using run by simp
qed

subsection \<open>C7: the desired image\<close>

text \<open>
  Claim C7 says that for every locator file whose first line ends in a newline the
  result is the cache directory joined with the base name of the trimmed content of the
  line. The code takes the base name of the line as read, newline included, and trims
  the joined path at its two ends only. For the line \<^verbatim>\<open>" myimage.tar"\<close>, with a
  leading space, the result keeps the space inside the path, where the claim gives
  \<^verbatim>\<open>/var/cache/ecs/myimage.tar\<close>.
\<close>

theorem getDesiredImageFile_leading_space:
  "fst (getDesiredImageFile cfg0 env0 (locator ('' myimage.tar'' @ [CHR 0x0A]))) =
     Inr ''/var/cache/ecs/ myimage.tar'' \<and>
   CacheDirectory cfg0 @ ''/'' @ fs_Base (TrimSpace '' myimage.tar'') = ''/var/cache/ecs/myimage.tar''"
  by (simp add: getDesiredImageFile_def fs_Open_def ReadString_def locator_def s0_def cfg0_def
      env0_def fs_Base_def TrimSpace_def TrimLeftSpace_def TrimRightSpace_def
      strip_leading.simps space_runes_def logged_def)

text \<open>
  Claim C7, amended. For every locator file that can be opened and whose content is a
  line, a newline and whatever follows, the result is the white-space-trimmed
  concatenation of the cache directory, a slash and the base name of the line with its
  newline. When the line is not empty, does not end in a slash and has no white space at
  its start or end, and the cache directory path does not start with white space, this
  is the cache directory joined with the base name of the line, all directory
  components discarded; so \<^verbatim>\<open>"../../etc/myimage.tar\n"\<close> resolves to
  \<^verbatim>\<open><cacheDir>/myimage.tar\<close>.
\<close>

theorem getDesiredImageFile_resolves:
  assumes "open_fault e (DesiredImageLocatorFile cfg) = None"
    and "files s (DesiredImageLocatorFile cfg) = Some (line @ CHR 0x0A # rest)"
    and "CHR 0x0A \<notin> set line"
  shows "fst (getDesiredImageFile cfg e s) =
           Inr (TrimSpace (CacheDirectory cfg @ ''/'' @ fs_Base (line @ [CHR 0x0A]))) \<and>
         (line \<noteq> [] \<and> last line \<noteq> CHR ''/'' \<and> TrimSpace line = line \<and>
          TrimLeftSpace (CacheDirectory cfg) = CacheDirectory cfg \<longrightarrow>
            fst (getDesiredImageFile cfg e s) = Inr (CacheDirectory cfg @ ''/'' @ fs_Base line))"
proof -
  have tw: "takeWhile (\<lambda>c. c \<noteq> CHR 0x0A) (line @ CHR 0x0A # rest) = line"
    using assms(3) by (induction line) auto
  have res: "fst (getDesiredImageFile cfg e s) =
      Inr (TrimSpace (CacheDirectory cfg @ ''/'' @ fs_Base (line @ [CHR 0x0A])))"
    using getDesiredImageFile_line [OF assms(1) assms(2)] tw by simp
  have "TrimSpace (CacheDirectory cfg @ ''/'' @ fs_Base (line @ [CHR 0x0A])) =
      CacheDirectory cfg @ ''/'' @ fs_Base line"
    if ne: "line \<noteq> []" and sl: "last line \<noteq> CHR ''/''" and tr: "TrimSpace line = line"
      and dr: "TrimLeftSpace (CacheDirectory cfg) = CacheDirectory cfg"
  proof -
    have b: "fs_Base line = rev (takeWhile (\<lambda>x. x \<noteq> CHR ''/'') (rev line))"
      using ne sl by (rule fs_Base_plain)
    have bl: "fs_Base (line @ [CHR 0x0A]) = fs_Base line @ [CHR 0x0A]"
      using b by (simp only: fs_Base_line)
    have "leading (map rev space_runes) (takeWhile (\<lambda>x. x \<noteq> CHR ''/'') (rev line)) =
        leading (map rev space_runes) (rev line)"
      by (rule leading_takeWhile_sep [OF no_slash_in_rev_space_runes])
    then have "leading (map rev space_runes) (rev (fs_Base line)) = 0"
      using TrimSpace_fixed(2) [OF tr] b by simp
    from TrimSpace_joined [OF TrimLeftSpace_fixed [OF dr] this] bl show ?thesis by simp
  qed
  with res show ?thesis by simp
qed

theorem getDesiredImageFile_resolves_witness:
  "fst (getDesiredImageFile cfg0 env0
          (locator (''../../etc/myimage.tar'' @ CHR 0x0A # ''later lines''))) =
     Inr ''/var/cache/ecs/myimage.tar''"
proof -
  have h1: "open_fault env0 (DesiredImageLocatorFile cfg0) = None" by (simp add: env0_def)
  have h2: "files (locator (''../../etc/myimage.tar'' @ CHR 0x0A # ''later lines''))
      (DesiredImageLocatorFile cfg0) = Some (''../../etc/myimage.tar'' @ CHR 0x0A # ''later lines'')"
    by (simp add: locator_def)
  have h3: "CHR 0x0A \<notin> set ''../../etc/myimage.tar''" by simp
  have c: "''../../etc/myimage.tar'' \<noteq> [] \<and> last ''../../etc/myimage.tar'' \<noteq> CHR ''/'' \<and>
      TrimSpace ''../../etc/myimage.tar'' = ''../../etc/myimage.tar'' \<and>
      TrimLeftSpace (CacheDirectory cfg0) = CacheDirectory cfg0"
    by (simp add: cfg0_def TrimSpace_def TrimLeftSpace_def TrimRightSpace_def
        strip_leading.simps space_runes_def)
  have b: "CacheDirectory cfg0 @ ''/'' @ fs_Base ''../../etc/myimage.tar'' = ''/var/cache/ecs/myimage.tar''"
    by (simp add: cfg0_def fs_Base_def)
  from getDesiredImageFile_resolves [OF h1 h2 h3] c
  have "fst (getDesiredImageFile cfg0 env0
          (locator (''../../etc/myimage.tar'' @ CHR 0x0A # ''later lines''))) =
      Inr (CacheDirectory cfg0 @ ''/'' @ fs_Base ''../../etc/myimage.tar'')"
    by blast
  with b show ?thesis by simp
qed

subsection \<open>C8: no locator, or no newline in it\<close>

text \<open>
  Claim C8. When the locator file cannot be opened (\<^verbatim>\<open>Open\<close> is refused, or the file
  is absent) or its content holds no newline, the resolution of the desired image
  returns an error: the error of \<^verbatim>\<open>Open\<close>, or \<^verbatim>\<open>io.EOF\<close> from \<^verbatim>\<open>ReadString\<close>.
  \<^verbatim>\<open>LoadDesiredAgent\<close> returns the same error, and the only call made is the one that
  opens the locator file: no artifact file is opened.
\<close>

theorem LoadDesiredAgent_no_locator:
  assumes "open_fault e (DesiredImageLocatorFile cfg) \<noteq> None \<or>
           files s (DesiredImageLocatorFile cfg) = None \<or>
           (\<exists>content. files s (DesiredImageLocatorFile cfg) = Some content \<and> CHR 0x0A \<notin> set content)"
  shows "\<exists>err. getDesiredImageFile cfg e s = (Inl err, logged (CallOpen (DesiredImageLocatorFile cfg)) s) \<and>
               LoadDesiredAgent cfg e s = (Inl err, logged (CallOpen (DesiredImageLocatorFile cfg)) s) \<and>
               err = (case fst (fs_Open e (DesiredImageLocatorFile cfg) s) of
                        Inl open_err \<Rightarrow> open_err | Inr content \<Rightarrow> EOF)"
  using assms
  by (auto simp: LoadDesiredAgent_def getDesiredImageFile_def fs_Open_def ReadString_def
      split: option.splits)

theorem LoadDesiredAgent_no_locator_witness:
  "LoadDesiredAgent cfg0 env0 s0 =
     (Inl (ErrNotExist ''/var/cache/ecs/desired-image''),
      s0\<lparr>calls := [CallOpen ''/var/cache/ecs/desired-image'']\<rparr>) \<and>
   LoadDesiredAgent cfg0 env0 (locator ''myimage.tar'') =
     (Inl EOF, (locator ''myimage.tar'')\<lparr>calls := [CallOpen ''/var/cache/ecs/desired-image'']\<rparr>)"
proof -
  have h1: "open_fault env0 (DesiredImageLocatorFile cfg0) \<noteq> None \<or>
      files s0 (DesiredImageLocatorFile cfg0) = None \<or>
      (\<exists>content. files s0 (DesiredImageLocatorFile cfg0) = Some content \<and> CHR 0x0A \<notin> set content)"
    by (simp add: s0_def)
  have h2: "open_fault env0 (DesiredImageLocatorFile cfg0) \<noteq> None \<or>
      files (locator ''myimage.tar'') (DesiredImageLocatorFile cfg0) = None \<or>
      (\<exists>content. files (locator ''myimage.tar'') (DesiredImageLocatorFile cfg0) = Some content \<and>
         CHR 0x0A \<notin> set content)"
    by (simp add: locator_def)
  have o1: "fst (fs_Open env0 (DesiredImageLocatorFile cfg0) s0) =
      Inl (ErrNotExist ''/var/cache/ecs/desired-image'')"
    by (simp add: fs_Open_def env0_def s0_def cfg0_def)
  have o2: "fst (fs_Open env0 (DesiredImageLocatorFile cfg0) (locator ''myimage.tar'')) =
      Inr ''myimage.tar''"
    by (simp add: fs_Open_def env0_def locator_def)
  from LoadDesiredAgent_no_locator [OF h1] o1
  have r1: "LoadDesiredAgent cfg0 env0 s0 =
      (Inl (ErrNotExist ''/var/cache/ecs/desired-image''),
       logged (CallOpen (DesiredImageLocatorFile cfg0)) s0)"
    by auto
  from LoadDesiredAgent_no_locator [OF h2] o2
  have r2: "LoadDesiredAgent cfg0 env0 (locator ''myimage.tar'') =
      (Inl EOF, logged (CallOpen (DesiredImageLocatorFile cfg0)) (locator ''myimage.tar''))"
    by auto
  show ?thesis
    using r1 r2 by (simp add: logged_def s0_def locator_def cfg0_def)
qed

subsection \<open>C9: the state marker is written by RecordCachedAgent alone\<close>

text \<open>
  Claim C9. With a state marker path that is neither the canonical artifact path nor a
  name of a temporary download file, \<^verbatim>\<open>DownloadAgent\<close> leaves the state marker file
  as it is, whatever the capabilities do; so when the marker was absent or empty before,
  \<^verbatim>\<open>IsAgentCached\<close> returns false after the download. \<^verbatim>\<open>RecordCachedAgent\<close> makes
  one call, \<^verbatim>\<open>WriteFile\<close> of the single byte \<^verbatim>\<open>1\<close> to the state marker path with
  permission 0700 (448), and when that does not fail the marker holds that byte. The
  other operations (\<^verbatim>\<open>IsAgentCached\<close>, \<^verbatim>\<open>getRegion\<close>, \<^verbatim>\<open>LoadCachedAgent\<close>,
  \<^verbatim>\<open>LoadDesiredAgent\<close>) write no file at all.
\<close>

theorem DownloadAgent_leaves_state_marker:
  assumes "CacheState cfg \<noteq> AgentTarball cfg"
    and "\<not> prefix (tempName cfg []) (CacheState cfg)"
  shows "files (snd (DownloadAgent cfg e s)) (CacheState cfg) = files s (CacheState cfg) \<and>
         (files s (CacheState cfg) = None \<or> files s (CacheState cfg) = Some [] \<longrightarrow>
            \<not> fst (IsAgentCached cfg e (snd (DownloadAgent cfg e s)))) \<and>
         calls (snd (RecordCachedAgent cfg e s)) = calls s @ [CallWriteFile (CacheState cfg) ''1'' 448] \<and>
         (writefile_fault e = None \<longrightarrow>
            fst (RecordCachedAgent cfg e s) = None \<and>
            files (snd (RecordCachedAgent cfg e s)) = (files s)(CacheState cfg \<mapsto> ''1'')) \<and>
         files (snd (IsAgentCached cfg e s)) = files s \<and>
         files (snd (getRegion cfg e s)) = files s \<and>
         files (snd (LoadCachedAgent cfg e s)) = files s \<and>
         files (snd (LoadDesiredAgent cfg e s)) = files s"
proof -
  have keep: "files (snd (DownloadAgent cfg e s)) (CacheState cfg) = files s (CacheState cfg)"
    using assms by (rule DownloadAgent_frame)
  have cached: "\<not> fst (IsAgentCached cfg e t)"
    if h: "files t (CacheState cfg) = None \<or> files t (CacheState cfg) = Some []" for t
  proof -
    obtain a b where f: "fileNotEmpty e (CacheState cfg) t = (a, b)"
      by (cases "fileNotEmpty e (CacheState cfg) t")
    have "\<not> a" using fileNotEmpty_fst [of e "CacheState cfg" t] f h by auto
    then show ?thesis using f by (simp add: IsAgentCached_def)
  qed
  have rec: "calls (snd (RecordCachedAgent cfg e s)) =
      calls s @ [CallWriteFile (CacheState cfg) ''1'' 448]"
    by (simp add: RecordCachedAgent_def fs_WriteFile_def orwPerm_def Let_def split: option.splits)
  have wr: "fst (RecordCachedAgent cfg e s) = None \<and>
      files (snd (RecordCachedAgent cfg e s)) = (files s)(CacheState cfg \<mapsto> ''1'')"
    if "writefile_fault e = None"
    using that by (simp add: RecordCachedAgent_def fs_WriteFile_def Let_def)
  have ia: "files (snd (IsAgentCached cfg e s)) = files s"
  proof -
    obtain a b where f: "fileNotEmpty e (CacheState cfg) s = (a, b)"
      by (cases "fileNotEmpty e (CacheState cfg) s")
    then have "b = logged (CallStat (CacheState cfg)) s"
      using fileNotEmpty_snd [of e "CacheState cfg" s] by simp
    then show ?thesis using f by (cases a) (simp_all add: IsAgentCached_def fileNotEmpty_snd)
  qed
  have lc: "files (snd (LoadCachedAgent cfg e s)) = files s"
    by (simp add: LoadCachedAgent_def fs_Open_def)
  have ld: "files (snd (LoadDesiredAgent cfg e s)) = files s"
    by (auto simp: LoadDesiredAgent_def getDesiredImageFile_def fs_Open_def ReadString_def
        split: option.splits)
  show ?thesis
    using keep cached [of "snd (DownloadAgent cfg e s)"] rec wr ia lc ld by simp
qed

theorem DownloadAgent_leaves_state_marker_witness:
  "fst (DownloadAgent cfg0 env_hello s_old) = None \<and>
   files (snd (DownloadAgent cfg0 env_hello s_old)) ''/var/cache/ecs/state'' = None \<and>
   \<not> fst (IsAgentCached cfg0 env_hello (snd (DownloadAgent cfg0 env_hello s_old))) \<and>
   fst (IsAgentCached cfg0 env_hello
          (snd (RecordCachedAgent cfg0 env_hello (snd (DownloadAgent cfg0 env_hello s_old)))))"
proof -
  have h1: "CacheState cfg0 \<noteq> AgentTarball cfg0" by (simp add: cfg0_def)
  have h2: "\<not> prefix (tempName cfg0 []) (CacheState cfg0)" by (simp add: cfg0_def tempName_def)
  have absent: "files s_old (CacheState cfg0) = None" by (simp add: s_old_def s0_def cfg0_def)
  have wf: "writefile_fault env_hello = None" by (simp add: env_hello_def env0_def)
  have run: "fst (DownloadAgent cfg0 env_hello s_old) = None"
    "files (snd (DownloadAgent cfg0 env_hello s_old)) (AgentTarball cfg0) = Some ''hello-agent''"
    using md5_hello_agent TrimSpace_digest_line
    by (simp_all add: run_defs env_hello_def env0_def s_old_def s0_def cfg0_def)
  from DownloadAgent_leaves_state_marker [OF h1 h2, of env_hello s_old] absent
  have a: "files (snd (DownloadAgent cfg0 env_hello s_old)) (CacheState cfg0) = None"
    and b: "\<not> fst (IsAgentCached cfg0 env_hello (snd (DownloadAgent cfg0 env_hello s_old)))"
    by simp_all
  from DownloadAgent_leaves_state_marker [OF h1 h2, of env_hello "snd (DownloadAgent cfg0 env_hello s_old)"] wf
  have c: "files (snd (RecordCachedAgent cfg0 env_hello (snd (DownloadAgent cfg0 env_hello s_old)))) =
      (files (snd (DownloadAgent cfg0 env_hello s_old)))(CacheState cfg0 \<mapsto> ''1'')"
    by simp
  have d: "fst (IsAgentCached cfg0 env_hello
      (snd (RecordCachedAgent cfg0 env_hello (snd (DownloadAgent cfg0 env_hello s_old)))))"
  proof -
    have "fst (fileNotEmpty env_hello (CacheState cfg0)
        (snd (RecordCachedAgent cfg0 env_hello (snd (DownloadAgent cfg0 env_hello s_old)))))"
      using c by (simp add: fileNotEmpty_fst env_hello_def env0_def)
    moreover have "fst (fileNotEmpty env_hello (AgentTarball cfg0)
        (snd (fileNotEmpty env_hello (CacheState cfg0)
          (snd (RecordCachedAgent cfg0 env_hello (snd (DownloadAgent cfg0 env_hello s_old)))))))"
      using c run(2) h1 by (simp add: fileNotEmpty_fst fileNotEmpty_snd env_hello_def env0_def)
    ultimately show ?thesis
      by (cases "fileNotEmpty env_hello (CacheState cfg0)
          (snd (RecordCachedAgent cfg0 env_hello (snd (DownloadAgent cfg0 env_hello s_old))))")
        (simp add: IsAgentCached_def)
  qed
  show ?thesis using run(1) a b d by (simp add: cfg0_def)
qed

subsection \<open>C10: a locator that names the parent directory\<close>

text \<open>
  Claim C10. For a locator file whose first line is two dots followed by a newline, and
  a cache directory path that does not start with white space, the resolution of the
  desired image succeeds and returns the cache directory joined with two dots: the base
  name of the line is the line itself, and nothing rejects it.
\<close>

theorem getDesiredImageFile_dotdot:
  assumes "open_fault e (DesiredImageLocatorFile cfg) = None"
    and "files s (DesiredImageLocatorFile cfg) = Some (''..'' @ CHR 0x0A # rest)"
    and "TrimLeftSpace (CacheDirectory cfg) = CacheDirectory cfg"
  shows "fst (getDesiredImageFile cfg e s) = Inr (CacheDirectory cfg @ ''/..'')"
proof -
  have nl: "CHR 0x0A \<in> set (''..'' @ CHR 0x0A # rest)" by simp
  have tw: "takeWhile (\<lambda>c. c \<noteq> CHR 0x0A) (''..'' @ CHR 0x0A # rest) = ''..''" by simp
  have b: "fs_Base (''..'' @ [CHR 0x0A]) = ''..'' @ [CHR 0x0A]" by (simp add: fs_Base_def)
  have t: "leading (map rev space_runes) (rev ''..'') = 0" by (simp add: space_runes_def)
  have "TrimSpace (CacheDirectory cfg @ ''/'' @ ''..'' @ [CHR 0x0A]) = CacheDirectory cfg @ ''/'' @ ''..''"
    by (rule TrimSpace_joined [OF TrimLeftSpace_fixed [OF assms(3)] t])
  with getDesiredImageFile_line [OF assms(1) assms(2) nl] tw b show ?thesis by simp
qed

theorem getDesiredImageFile_dotdot_witness:
  "fst (getDesiredImageFile cfg0 env0 (locator (''..'' @ [CHR 0x0A]))) = Inr ''/var/cache/ecs/..''"
proof -
  have h1: "open_fault env0 (DesiredImageLocatorFile cfg0) = None" by (simp add: env0_def)
  have h2: "files (locator (''..'' @ [CHR 0x0A])) (DesiredImageLocatorFile cfg0) =
      Some (''..'' @ CHR 0x0A # [])"
    by (simp add: locator_def)
  have h3: "TrimLeftSpace (CacheDirectory cfg0) = CacheDirectory cfg0"
    by (simp add: cfg0_def TrimLeftSpace_def strip_leading.simps space_runes_def)
  from getDesiredImageFile_dotdot [OF h1 h2 h3] show ?thesis by (simp add: cfg0_def)
qed


end
